theory Spec2Isabelle
  imports Complex_Main
begin

section \<open>Numeric model\<close>

text \<open>
  The arrays of \<^verbatim>\<open>grid/interpolate.py\<close> and \<^verbatim>\<open>grid/ode.py\<close> hold
  double-precision numbers. A finite value is idealised as an exact real: no rounding,
  no overflow of a finite result, no signed zero (a zero divisor is the positive zero).
  The two infinities and the value that is not a number are values of their own, with
  the arithmetic of IEEE 754: \<open>NaN\<close> is propagated by every operation, and so are the
  infinities except in \<open>inf - inf\<close>, \<open>0 * inf\<close> and \<open>inf / inf\<close>, which are \<open>NaN\<close>. A
  complex entry is an exact complex number, or \<open>CNaN\<close> when one of its components is
  not a number.
\<close>

datatype float64 = Fin real | PInf | NInf | NaN

datatype complex128 = CFin complex | CNaN

text \<open>The infinity that has the sign of a non-zero real.\<close>

definition inf_of_sign :: "real \<Rightarrow> float64" where
  "inf_of_sign a = (if 0 < a then PInf else NInf)"

instantiation float64 :: "{comm_monoid_add, comm_monoid_mult, minus, uminus, inverse}"
begin

definition zero_float64 :: float64 where
  "zero_float64 = Fin 0"

definition one_float64 :: float64 where
  "one_float64 = Fin 1"

fun plus_float64 :: "float64 \<Rightarrow> float64 \<Rightarrow> float64" where
  "plus_float64 (Fin a) (Fin b) = Fin (a + b)"
| "plus_float64 NaN _ = NaN"
| "plus_float64 _ NaN = NaN"
| "plus_float64 PInf NInf = NaN"
| "plus_float64 NInf PInf = NaN"
| "plus_float64 PInf _ = PInf"
| "plus_float64 _ PInf = PInf"
| "plus_float64 NInf _ = NInf"
| "plus_float64 _ NInf = NInf"

fun uminus_float64 :: "float64 \<Rightarrow> float64" where
  "uminus_float64 (Fin a) = Fin (- a)"
| "uminus_float64 PInf = NInf"
| "uminus_float64 NInf = PInf"
| "uminus_float64 NaN = NaN"

fun minus_float64 :: "float64 \<Rightarrow> float64 \<Rightarrow> float64" where
  "minus_float64 (Fin a) (Fin b) = Fin (a - b)"
| "minus_float64 NaN _ = NaN"
| "minus_float64 _ NaN = NaN"
| "minus_float64 PInf PInf = NaN"
| "minus_float64 NInf NInf = NaN"
| "minus_float64 PInf _ = PInf"
| "minus_float64 _ NInf = PInf"
| "minus_float64 NInf _ = NInf"
| "minus_float64 _ PInf = NInf"

fun times_float64 :: "float64 \<Rightarrow> float64 \<Rightarrow> float64" where
  "times_float64 (Fin a) (Fin b) = Fin (a * b)"
| "times_float64 NaN _ = NaN"
| "times_float64 _ NaN = NaN"
| "times_float64 (Fin a) PInf = (if a = 0 then NaN else inf_of_sign a)"
| "times_float64 (Fin a) NInf = (if a = 0 then NaN else inf_of_sign (- a))"
| "times_float64 PInf (Fin b) = (if b = 0 then NaN else inf_of_sign b)"
| "times_float64 NInf (Fin b) = (if b = 0 then NaN else inf_of_sign (- b))"
| "times_float64 PInf PInf = PInf"
| "times_float64 NInf NInf = PInf"
| "times_float64 PInf NInf = NInf"
| "times_float64 NInf PInf = NInf"

fun divide_float64 :: "float64 \<Rightarrow> float64 \<Rightarrow> float64" where
  "divide_float64 (Fin a) (Fin b) =
     (if b \<noteq> 0 then Fin (a / b) else if a = 0 then NaN else inf_of_sign a)"
| "divide_float64 NaN _ = NaN"
| "divide_float64 _ NaN = NaN"
| "divide_float64 (Fin a) _ = Fin 0"
| "divide_float64 PInf (Fin b) = (if 0 \<le> b then PInf else NInf)"
| "divide_float64 NInf (Fin b) = (if 0 \<le> b then NInf else PInf)"
| "divide_float64 _ _ = NaN"

fun inverse_float64 :: "float64 \<Rightarrow> float64" where
  "inverse_float64 (Fin a) = (if a = 0 then PInf else Fin (1 / a))"
| "inverse_float64 NaN = NaN"
| "inverse_float64 _ = Fin 0"

instance
proof
  fix u v w :: float64
  show "0 + u = u"
    by (cases u; simp add: zero_float64_def)
  show "u + v = v + u"
    by (cases u; cases v; simp)
  show "u + v + w = u + (v + w)"
    by (cases u; cases v; cases w; simp)
  show "1 * u = u"
    by (cases u; simp add: one_float64_def inf_of_sign_def)
  show "u * v = v * u"
    by (cases u; cases v; simp)
  show "u * v * w = u * (v * w)"
    by (cases u; cases v; cases w;
        simp add: inf_of_sign_def zero_less_mult_iff mult_less_0_iff not_less; argo)
qed

end

text \<open>The complex operations the conversion to real harmonics uses.\<close>

fun c_add :: "complex128 \<Rightarrow> complex128 \<Rightarrow> complex128" where
  "c_add (CFin a) (CFin b) = CFin (a + b)"
| "c_add _ _ = CNaN"

fun c_sub :: "complex128 \<Rightarrow> complex128 \<Rightarrow> complex128" where
  "c_sub (CFin a) (CFin b) = CFin (a - b)"
| "c_sub _ _ = CNaN"

fun c_div :: "complex128 \<Rightarrow> complex128 \<Rightarrow> complex128" where
  "c_div (CFin a) (CFin b) = (if b = 0 then CNaN else CFin (a / b))"
| "c_div _ _ = CNaN"

fun conjugate :: "complex128 \<Rightarrow> complex128" where
  "conjugate (CFin a) = CFin (cnj a)"
| "conjugate CNaN = CNaN"

text \<open>
  Storing a complex value into a real array keeps its real part (the source silences
  the warning numpy gives for it).
\<close>

fun cast_float :: "complex128 \<Rightarrow> float64" where
  "cast_float (CFin a) = Fin (Re a)"
| "cast_float CNaN = NaN"

text \<open>\<^verbatim>\<open>np.sqrt(2)\<close>, and \<^verbatim>\<open>np.sqrt(2) * 1j\<close>.\<close>

definition np_sqrt2 :: complex128 where
  "np_sqrt2 = CFin (complex_of_real (sqrt 2))"

definition np_sqrt2_1j :: complex128 where
  "np_sqrt2_1j = CFin (complex_of_real (sqrt 2) * \<i>)"

text \<open>
  \<^verbatim>\<open>np.nan_to_num\<close> with its defaults: not a number becomes 0, and an infinity becomes
  the finite double of largest magnitude with its sign, 1.7976931348623157e308.
\<close>

definition float_max :: real where
  "float_max = (2 - 1 / 2 ^ 52) * 2 ^ 1023"

fun nan_to_num :: "float64 \<Rightarrow> float64" where
  "nan_to_num NaN = 0"
| "nan_to_num PInf = Fin float_max"
| "nan_to_num NInf = Fin (- float_max)"
| "nan_to_num (Fin a) = Fin a"

section \<open>Errors and arrays\<close>

text \<open>
  Every \<^verbatim>\<open>raise\<close> of the two modules and every exception of the Python and numpy
  operations they use is a value. An exception of an external routine (the spline
  object, the spline constructor, \<^verbatim>\<open>einsum\<close>) is \<open>External\<close>.
\<close>

datatype error =
    NotImplementedError_bd_cond int nat
  | NotImplementedError_order
  | ValueError_not_converged int
  | ValueError_theta_phi nat nat
  | ValueError_deriv int
  | ValueError_stack
  | ValueError_broadcast
  | IndexError
  | TypeError
  | NameError string
  | AttributeError string
  | External string

definition bind_err :: "error + 'a \<Rightarrow> ('a \<Rightarrow> error + 'b) \<Rightarrow> error + 'b" where
  "bind_err r f = (case r of Inl e \<Rightarrow> Inl e | Inr v \<Rightarrow> f v)"

text \<open>The first exception of a sequence of computations is the one raised.\<close>

fun sequence_err :: "(error + 'a) list \<Rightarrow> error + 'a list" where
  "sequence_err [] = Inr []"
| "sequence_err (r # rs) =
     (case r of
        Inl e \<Rightarrow> Inl e
      | Inr v \<Rightarrow> (case sequence_err rs of Inl e \<Rightarrow> Inl e | Inr vs \<Rightarrow> Inr (v # vs)))"

text \<open>
  An array is a nested list, rectangular by construction in numpy. numpy's
  broadcasting of two one-dimensional operands: equal lengths go elementwise, an
  operand of length one is repeated, anything else is an error.
\<close>

definition broadcast2 :: "('a \<Rightarrow> 'b \<Rightarrow> 'c) \<Rightarrow> 'a list \<Rightarrow> 'b list \<Rightarrow> error + 'c list" where
  "broadcast2 f xs ys =
     (if length xs = length ys then Inr (map2 f xs ys)
      else if length xs = 1 then Inr (map (f (hd xs)) ys)
      else if length ys = 1 then Inr (map (\<lambda>x. f x (hd ys)) xs)
      else Inl ValueError_broadcast)"

text \<open>An in-place operation \<^verbatim>\<open>row op= v\<close> keeps the shape of \<open>row\<close>.\<close>

definition inplace2 :: "('a \<Rightarrow> 'b \<Rightarrow> 'a) \<Rightarrow> 'a list \<Rightarrow> 'b list \<Rightarrow> error + 'a list" where
  "inplace2 f row v =
     (if length v = length row then Inr (map2 f row v)
      else if length v = 1 then Inr (map (\<lambda>x. f x (hd v)) row)
      else Inl ValueError_broadcast)"

text \<open>Python indexing and slicing (step one): a negative index counts from the end.\<close>

definition py_get :: "'a list \<Rightarrow> int \<Rightarrow> error + 'a" where
  "py_get xs i =
     (if 0 \<le> i \<and> i < int (length xs) then Inr (xs ! nat i)
      else if i < 0 \<and> - int (length xs) \<le> i then Inr (xs ! nat (int (length xs) + i))
      else Inl IndexError)"

definition slice_index :: "nat \<Rightarrow> int \<Rightarrow> nat" where
  "slice_index n i = (if i < 0 then nat (max 0 (int n + i)) else min n (nat i))"

definition py_slice :: "'a list \<Rightarrow> int \<Rightarrow> int \<Rightarrow> 'a list" where
  "py_slice xs a b =
     (let lo = slice_index (length xs) a; hi = slice_index (length xs) b
      in take (hi - lo) (drop lo xs))"

definition py_slice_from :: "'a list \<Rightarrow> int \<Rightarrow> 'a list" where
  "py_slice_from xs a = drop (slice_index (length xs) a) xs"

text \<open>
  \<^verbatim>\<open>xs[a:b] = ys\<close> and \<^verbatim>\<open>xs[a:] = ys\<close> on an array, where \<open>ys\<close> has the
  shape of the slice.
\<close>

definition set_slice :: "'a list \<Rightarrow> int \<Rightarrow> int \<Rightarrow> 'a list \<Rightarrow> 'a list" where
  "set_slice xs a b ys =
     (let lo = slice_index (length xs) a
      in take lo xs @ ys @ drop (lo + length ys) xs)"

definition set_slice_from :: "'a list \<Rightarrow> int \<Rightarrow> 'a list \<Rightarrow> 'a list" where
  "set_slice_from xs a ys =
     (let lo = slice_index (length xs) a
      in take lo xs @ ys @ drop (lo + length ys) xs)"

text \<open>Elementwise operations on arrays of three axes.\<close>

definition ew1 :: "('a \<Rightarrow> 'b) \<Rightarrow> 'a list list list \<Rightarrow> 'b list list list" where
  "ew1 f A = map (map (map f)) A"

definition ew2 :: "('a \<Rightarrow> 'b \<Rightarrow> 'c) \<Rightarrow> 'a list list list \<Rightarrow> 'b list list list \<Rightarrow> 'c list list list" where
  "ew2 f A B = map2 (map2 (map2 f)) A B"

section \<open>interpolate.py\<close>

subsection \<open>Spherical harmonics\<close>

text \<open>
  \<^verbatim>\<open>_generate_sph_paras\<close>: the degrees \<^verbatim>\<open>np.arange(l_max + 1)\<close> and the orders
  \<^verbatim>\<open>np.append(np.arange(l_max + 1), np.arange(-l_max, 0))\<close>.
\<close>

definition generate_sph_paras :: "int \<Rightarrow> int list \<times> int list" where
  "generate_sph_paras l_max =
     (let l_list = [0..l_max];
          m_list_p = [0..l_max];
          m_list_n = [- l_max..-1];
          m_list = m_list_p @ m_list_n
      in (l_list, m_list))"

text \<open>
  \<^verbatim>\<open>generate_sph_harms\<close>. The complex harmonic \<^verbatim>\<open>scipy.special.sph_harm\<close> is
  external: it is the parameter \<open>sph_harm\<close>, applied as \<open>sph_harm m l theta phi\<close>. The
  call broadcasts the orders along the first axis, the degrees along the second, and
  the two angle arrays together along the third.
\<close>

definition generate_sph_harms ::
  "(int \<Rightarrow> int \<Rightarrow> float64 \<Rightarrow> float64 \<Rightarrow> complex128) \<Rightarrow> int \<Rightarrow> float64 list \<Rightarrow> float64 list
     \<Rightarrow> error + complex128 list list list" where
  "generate_sph_harms sph_harm l_max theta phi =
     (case generate_sph_paras l_max of
        (l, m) \<Rightarrow>
          bind_err (broadcast2 Pair theta phi)
            (\<lambda>angles. Inr (map (\<lambda>mi. map (\<lambda>li. map (\<lambda>(t, p). sph_harm mi li t p) angles) l) m)))"

text \<open>
  \<^verbatim>\<open>_convert_ylm_to_zlm\<close>. The three assignments are made in the order of the
  source; the last one, \<^verbatim>\<open>s_h_r[0] = sp_harm_arrs[0]\<close>, raises on an array with no
  row.
\<close>

definition convert_ylm_to_zlm :: "complex128 list list list \<Rightarrow> error + float64 list list list" where
  "convert_ylm_to_zlm sp_harm_arrs =
     (let ms = length sp_harm_arrs;
          ls = (case sp_harm_arrs of [] \<Rightarrow> 0 | r # _ \<Rightarrow> length r);
          arrs = (case sp_harm_arrs of (v # _) # _ \<Rightarrow> length v | _ \<Rightarrow> 0);
          s_h_r = replicate ms (replicate ls (replicate arrs (0 :: float64)));
          s_h_r = set_slice s_h_r 1 (int ls)
            (ew1 cast_float
               (ew1 (\<lambda>c. c_div c np_sqrt2)
                  (ew2 c_add (py_slice sp_harm_arrs 1 (int ls))
                     (ew1 conjugate (py_slice sp_harm_arrs 1 (int ls))))));
          s_h_r = set_slice_from s_h_r (- int ls + 1)
            (ew1 cast_float
               (ew1 (\<lambda>c. c_div c np_sqrt2_1j)
                  (ew2 c_sub (py_slice_from sp_harm_arrs (- int ls + 1))
                     (ew1 conjugate (py_slice_from sp_harm_arrs (- int ls + 1))))))
      in bind_err (py_get sp_harm_arrs 0)
           (\<lambda>row0. Inr (s_h_r[0 := map (map cast_float) row0])))"

text \<open>
  The entries that the first and the second slice assignment store for a complex
  entry \<open>c\<close>.
\<close>

definition positive_rows_entry :: "complex128 \<Rightarrow> float64" where
  "positive_rows_entry c = cast_float (c_div (c_add c (conjugate c)) np_sqrt2)"

definition negative_rows_entry :: "complex128 \<Rightarrow> float64" where
  "negative_rows_entry c = cast_float (c_div (c_sub c (conjugate c)) np_sqrt2_1j)"

text \<open>\<^verbatim>\<open>generate_real_sph_harms\<close>.\<close>

definition generate_real_sph_harms ::
  "(int \<Rightarrow> int \<Rightarrow> float64 \<Rightarrow> float64 \<Rightarrow> complex128) \<Rightarrow> int \<Rightarrow> float64 list \<Rightarrow> float64 list
     \<Rightarrow> error + float64 list list list" where
  "generate_real_sph_harms sph_harm l_max theta phi =
     bind_err (generate_sph_harms sph_harm l_max theta phi)
       (\<lambda>sph_h. bind_err (convert_ylm_to_zlm sph_h) (\<lambda>z. Inr (ew1 nan_to_num z)))"

subsection \<open>Projection onto the spherical expansion\<close>

text \<open>
  \<^verbatim>\<open>sph_harm * value_arrays\<close>: an array of shape (M, L, N) times one of shape (N,),
  broadcast along the last axis.
\<close>

definition mul_last :: "float64 list list list \<Rightarrow> float64 list \<Rightarrow> error + float64 list list list" where
  "mul_last A v =
     sequence_err (map (\<lambda>plane. sequence_err (map (\<lambda>u. broadcast2 (*) u v) plane)) A)"

text \<open>
  \<^verbatim>\<open>project_function_onto_spherical_expansion\<close>. \<^verbatim>\<open>np.sum(..., axis=-1)\<close> adds
  the entries of each slice of the last axis; \<^verbatim>\<open>np.stack\<close> raises on an empty list.
\<close>

definition project_function_onto_spherical_expansion ::
  "float64 list list list \<Rightarrow> float64 list \<Rightarrow> float64 list \<Rightarrow> int list
     \<Rightarrow> error + float64 list list list" where
  "project_function_onto_spherical_expansion sph_harm value_arrays weights indices =
     bind_err (mul_last sph_harm value_arrays) (\<lambda>prod1.
     bind_err (mul_last prod1 weights) (\<lambda>prod_value.
       let axis_value =
             map (\<lambda>i. map (map (\<lambda>u. sum_list (py_slice u (indices ! i) (indices ! (i + 1)))))
                          prod_value)
                 [0..<length indices - 1]
       in if axis_value = [] then Inl ValueError_stack
          else Inr (ew1 nan_to_num axis_value)))"

subsection \<open>Radial splines\<close>

text \<open>The radial grid (\<^verbatim>\<open>OneDGrid\<close>): its points and its weights.\<close>

record OneDGrid =
  grid_points :: "float64 list"
  grid_weights :: "float64 list"

text \<open>
  \<^verbatim>\<open>ml_sph_value / (radial.points**2 * radial.weights)[:, None, None]\<close>: the divisor
  is broadcast along the first axis.
\<close>

definition div_first :: "float64 list list list \<Rightarrow> float64 list \<Rightarrow> error + float64 list list list" where
  "div_first A d = broadcast2 (\<lambda>plane dk. map (map (\<lambda>c. c / dk)) plane) A d"

text \<open>
  \<^verbatim>\<open>spline_with_sph_harms\<close>. The spline constructor \<^verbatim>\<open>scipy.interpolate.CubicSpline\<close>
  is external: it is the parameter \<open>CubicSpline\<close>, applied to the abscissae \<open>x\<close> and
  the data \<open>y\<close>. \<open>spline_with_sph_harms_xy\<close> is the pair the constructor is called
  with.
\<close>

definition spline_with_sph_harms_xy ::
  "float64 list list list \<Rightarrow> float64 list \<Rightarrow> float64 list \<Rightarrow> int list \<Rightarrow> OneDGrid
     \<Rightarrow> error + float64 list \<times> float64 list list list" where
  "spline_with_sph_harms_xy sph_harm value_arrays weights indices radial =
     bind_err (project_function_onto_spherical_expansion sph_harm value_arrays weights indices)
       (\<lambda>ml_sph_value.
     bind_err (broadcast2 (*) (map (\<lambda>r. r ^ 2) (grid_points radial)) (grid_weights radial))
       (\<lambda>jacobian.
     bind_err (div_first ml_sph_value jacobian)
       (\<lambda>ml_sph_value_with_r. Inr (grid_points radial, ml_sph_value_with_r))))"

definition spline_with_sph_harms ::
  "(float64 list \<Rightarrow> float64 list list list \<Rightarrow> string + 's)
     \<Rightarrow> float64 list list list \<Rightarrow> float64 list \<Rightarrow> float64 list \<Rightarrow> int list \<Rightarrow> OneDGrid
     \<Rightarrow> error + 's" where
  "spline_with_sph_harms CubicSpline sph_harm value_arrays weights indices radial =
     bind_err (spline_with_sph_harms_xy sph_harm value_arrays weights indices radial)
       (\<lambda>(x, y). case CubicSpline x y of Inl msg \<Rightarrow> Inl (External msg) | Inr spline \<Rightarrow> Inr spline)"

subsection \<open>Interpolation\<close>

text \<open>
  The values of numpy that \<^verbatim>\<open>interpolate_given_splines\<close> only hands on: an array
  with its shape, and the radial argument, a scalar or an array.
\<close>

datatype ndarray = NDArray (shape: "nat list") (flat: "float64 list")

datatype r_points = Scalar float64 | Points "float64 list"

fun isscalar :: "r_points \<Rightarrow> bool" where
  "isscalar (Scalar _) = True"
| "isscalar (Points _) = False"

text \<open>
  \<^verbatim>\<open>interpolate_given_splines\<close>. The spline object and \<^verbatim>\<open>np.einsum\<close> are external:
  \<open>spline r None\<close> is the call \<^verbatim>\<open>spline(r_points)\<close>, \<open>spline r (Some d)\<close> the call
  \<^verbatim>\<open>spline(r_points, deriv)\<close>, and \<open>einsum\<close> takes the subscripts and the two
  operands.
\<close>

definition interpolate_given_splines ::
  "(int \<Rightarrow> int \<Rightarrow> float64 \<Rightarrow> float64 \<Rightarrow> complex128)
     \<Rightarrow> (string \<Rightarrow> float64 list list list \<Rightarrow> ndarray \<Rightarrow> string + ndarray)
     \<Rightarrow> (r_points \<Rightarrow> int option \<Rightarrow> string + ndarray)
     \<Rightarrow> r_points \<Rightarrow> float64 list \<Rightarrow> float64 list \<Rightarrow> int \<Rightarrow> error + ndarray" where
  "interpolate_given_splines sph_harm einsum spline r_pts theta phi deriv =
     (if length theta \<noteq> length phi then Inl (ValueError_theta_phi (length theta) (length phi))
      else
        bind_err
          (if deriv = 0 then
             (case spline r_pts None of Inl msg \<Rightarrow> Inl (External msg) | Inr v \<Rightarrow> Inr v)
           else if 1 \<le> deriv \<and> deriv \<le> 3 then
             (case spline r_pts (Some deriv) of Inl msg \<Rightarrow> Inl (External msg) | Inr v \<Rightarrow> Inr v)
           else Inl (ValueError_deriv deriv))
          (\<lambda>r_value.
        bind_err (py_get (shape r_value) (- 1)) (\<lambda>last_extent.
          let l_max = int last_extent - 1 in
        bind_err (generate_real_sph_harms sph_harm l_max theta phi) (\<lambda>r_sph_harm.
          if isscalar r_pts then
            (case einsum ''mlk,ml->k'' r_sph_harm r_value of
               Inl msg \<Rightarrow> Inl (External msg) | Inr v \<Rightarrow> Inr v)
          else
            (case einsum ''mlk,nml->nk'' r_sph_harm r_value of
               Inl msg \<Rightarrow> Inl (External msg) | Inr v \<Rightarrow> Inr v)))))"

section \<open>ode.py\<close>

subsection \<open>Coefficient arrays\<close>

text \<open>A coefficient is a number or a function of the mesh.\<close>

datatype coeff = Number float64 | Callable "float64 list \<Rightarrow> float64 list"

text \<open>
  \<^verbatim>\<open>_construct_coeff_array\<close>: row \<open>i\<close> of a zero array gets \<^verbatim>\<open>+= val\<close> for a
  number and \<^verbatim>\<open>+= val(x)\<close> for a function.
\<close>

definition construct_coeff_array :: "float64 list \<Rightarrow> coeff list \<Rightarrow> error + float64 list list" where
  "construct_coeff_array x coeff =
     sequence_err
       (map (\<lambda>val. case val of
                 Number c \<Rightarrow> Inr (map (\<lambda>z. z + c) (replicate (length x) 0))
               | Callable f \<Rightarrow> inplace2 (+) (replicate (length x) 0) (f x))
            coeff)"

subsection \<open>Transformed coefficients\<close>

text \<open>\<^verbatim>\<open>M[i] += v\<close> on an array of two axes, and products of rows that may have failed.\<close>

definition iadd_row :: "float64 list list \<Rightarrow> nat \<Rightarrow> error + float64 list \<Rightarrow> error + float64 list list" where
  "iadd_row M i rv =
     (if i < length M then
        bind_err rv (\<lambda>v. bind_err (inplace2 (+) (M ! i) v) (\<lambda>row. Inr (M[i := row])))
      else Inl IndexError)"

definition row_mul :: "error + float64 list \<Rightarrow> error + float64 list \<Rightarrow> error + float64 list" where
  "row_mul ra rb = bind_err ra (\<lambda>a. bind_err rb (\<lambda>b. broadcast2 (*) a b))"

definition row_map :: "(float64 \<Rightarrow> float64) \<Rightarrow> error + float64 list \<Rightarrow> error + float64 list" where
  "row_map f ra = bind_err ra (\<lambda>a. Inr (map f a))"

text \<open>
  Lines 177 to 209 of \<^verbatim>\<open>_transform_ode_from_derivs\<close>, as a function of the three
  names they read: \<^verbatim>\<open>deriv_func_list\<close>, \<^verbatim>\<open>coeff_a\<close> and \<^verbatim>\<open>r\<close>.
\<close>

definition transform_ode_lines ::
  "coeff list \<Rightarrow> (float64 list \<Rightarrow> float64 list) list \<Rightarrow> float64 list \<Rightarrow> error + float64 list list" where
  "transform_ode_lines coeff_a deriv_func_list r =
     (let derivs = map (\<lambda>dev. dev r) deriv_func_list;
          total = length coeff_a
      in
      bind_err (construct_coeff_array r coeff_a) (\<lambda>coeff_a_mtr.
      let coeff_b = replicate total (replicate (length r) (0 :: float64)) in
      bind_err (iadd_row coeff_b 0 (py_get coeff_a_mtr 0)) (\<lambda>coeff_b.
      bind_err
        (if total > 1 then
           iadd_row coeff_b 1 (row_mul (py_get coeff_a_mtr 1) (py_get derivs 0))
         else Inr coeff_b) (\<lambda>coeff_b.
      bind_err
        (if total > 2 then
           bind_err (iadd_row coeff_b 1 (row_mul (py_get coeff_a_mtr 2) (py_get derivs 1)))
             (\<lambda>coeff_b.
                iadd_row coeff_b 2
                  (row_mul (py_get coeff_a_mtr 2) (row_map (\<lambda>d. d ^ 2) (py_get derivs 0))))
         else Inr coeff_b) (\<lambda>coeff_b.
      bind_err
        (if total > 3 then
           bind_err (iadd_row coeff_b 1 (row_mul (py_get coeff_a_mtr 3) (py_get derivs 2)))
             (\<lambda>coeff_b.
           bind_err
             (iadd_row coeff_b 2
                (row_mul
                   (row_mul (row_map (\<lambda>a. a * Fin 3) (py_get coeff_a_mtr 3)) (py_get derivs 0))
                   (py_get derivs 1)))
             (\<lambda>coeff_b.
                iadd_row coeff_b 3
                  (row_mul (py_get coeff_a_mtr 3) (row_map (\<lambda>d. d ^ 3) (py_get derivs 0)))))
         else Inr coeff_b) (\<lambda>coeff_b. Inr coeff_b))))))"

text \<open>
  The names a function body reads are looked up in the parameters of the function and
  then in the globals of the module; a name bound in neither (and not a builtin) raises
  \<^verbatim>\<open>NameError\<close>. The globals of \<^verbatim>\<open>ode.py\<close> are its imports and the class.
\<close>

datatype pyobj =
    ObjCoeffs "coeff list"
  | ObjCallables "(float64 list \<Rightarrow> float64 list) list"
  | ObjArray "float64 list"
  | ObjModuleLevel

definition ode_globals :: "(string \<times> pyobj) list" where
  "ode_globals =
     map (\<lambda>n. (n, ObjModuleLevel))
       [''Number'', ''Union'', ''BaseTransform'', ''np'', ''solve_bvp'', ''bell'', ''ODE'']"

definition load_name :: "(string \<times> pyobj) list \<Rightarrow> string \<Rightarrow> error + pyobj" where
  "load_name scope n = (case map_of scope n of None \<Rightarrow> Inl (NameError n) | Some v \<Rightarrow> Inr v)"

text \<open>
  The body of \<^verbatim>\<open>_transform_ode_from_derivs\<close> in a scope: line 177 reads
  \<^verbatim>\<open>deriv_func_list\<close> and \<^verbatim>\<open>r\<close>, line 178 reads \<^verbatim>\<open>coeff_a\<close>.
\<close>

definition transform_ode_from_derivs_body :: "(string \<times> pyobj) list \<Rightarrow> error + float64 list list" where
  "transform_ode_from_derivs_body scope =
     bind_err (load_name scope ''deriv_func_list'') (\<lambda>o1.
     bind_err (load_name scope ''r'') (\<lambda>o2.
     bind_err (load_name scope ''coeff_a'') (\<lambda>o3.
       case (o3, o1, o2) of
         (ObjCoeffs coeff_a, ObjCallables deriv_func_list, ObjArray r) \<Rightarrow>
            transform_ode_lines coeff_a deriv_func_list r
       | _ \<Rightarrow> Inl TypeError)))"

text \<open>
  \<^verbatim>\<open>_transform_ode_from_derivs(coeffs, deriv_transformation, r)\<close>: the body runs in
  the scope of its three parameters and the module's globals.
\<close>

definition transform_ode_from_derivs ::
  "coeff list \<Rightarrow> (float64 list \<Rightarrow> float64 list) list \<Rightarrow> float64 list \<Rightarrow> error + float64 list list" where
  "transform_ode_from_derivs coeffs deriv_transformation r =
     transform_ode_from_derivs_body
       ([(''coeffs'', ObjCoeffs coeffs),
         (''deriv_transformation'', ObjCallables deriv_transformation),
         (''r'', ObjArray r)] @ ode_globals)"

subsection \<open>The explicit form\<close>

text \<open>
  \<^verbatim>\<open>_rearrange_to_explicit_ode\<close> updates an array in place, so arrays live in a store
  and are passed by address: \<open>fx\<close> is the address of an array of one axis, \<open>y\<close> and
  \<open>coeff_b\<close> are the addresses of their rows. \<^verbatim>\<open>result = fx\<close> binds a second name to
  the same array; \<^verbatim>\<open>result -= b * y[i]\<close> writes into it; the quotient returned is a
  new array.
\<close>

type_synonym store = "nat \<Rightarrow> float64 list"

fun rearrange_loop :: "nat \<Rightarrow> nat list \<Rightarrow> nat list \<Rightarrow> nat \<Rightarrow> store \<Rightarrow> error option \<times> store" where
  "rearrange_loop result [] y i st = (None, st)"
| "rearrange_loop result (b # bs) y i st =
     (case py_get y (int i) of
        Inl e \<Rightarrow> (Some e, st)
      | Inr yi \<Rightarrow>
          (case broadcast2 (*) (st b) (st yi) of
             Inl e \<Rightarrow> (Some e, st)
           | Inr b_yi \<Rightarrow>
               (case inplace2 (-) (st result) b_yi of
                  Inl e \<Rightarrow> (Some e, st)
                | Inr v \<Rightarrow> rearrange_loop result bs y (i + 1) (st(result := v)))))"

definition rearrange_to_explicit_ode ::
  "nat list \<Rightarrow> nat list \<Rightarrow> nat \<Rightarrow> store \<Rightarrow> (error + float64 list) \<times> store" where
  "rearrange_to_explicit_ode y coeff_b fx st =
     (let result = fx in
      case rearrange_loop result (butlast coeff_b) y 0 st of
        (Some e, st') \<Rightarrow> (Inl e, st')
      | (None, st') \<Rightarrow>
          (case py_get coeff_b (- 1) of
             Inl e \<Rightarrow> (Inl e, st')
           | Inr lead \<Rightarrow> (broadcast2 (/) (st' result) (st' lead), st')))"

subsection \<open>The solver\<close>

text \<open>
  The two closures of \<^verbatim>\<open>solve_ode\<close>. The class \<^verbatim>\<open>ODE\<close> has no attribute
  \<^verbatim>\<open>_rearrange_trans_ode\<close> or \<^verbatim>\<open>_rearrange_ode\<close>: \<^verbatim>\<open>func\<close> raises when it reads
  them, before the arguments of the call are evaluated. A transform object is true, and
  \<^verbatim>\<open>None\<close> is false.
\<close>

definition solve_ode_func ::
  "'t option \<Rightarrow> coeff list \<Rightarrow> (float64 list \<Rightarrow> float64 list) \<Rightarrow> float64 list \<Rightarrow> float64 list list
     \<Rightarrow> error + float64 list list" where
  "solve_ode_func transform coeffs fx x y =
     (if transform \<noteq> None then Inl (AttributeError ''_rearrange_trans_ode'')
      else bind_err (construct_coeff_array x coeffs)
             (\<lambda>coeffs_mt. Inl (AttributeError ''_rearrange_ode'')))"

definition solve_ode_bc ::
  "(int \<times> int \<times> float64) list \<Rightarrow> float64 list \<Rightarrow> float64 list \<Rightarrow> error + float64 list" where
  "solve_ode_bc bd_cond ya yb =
     (let bonds = [ya, yb] in
      sequence_err
        (map (\<lambda>(i, deriv, v).
                bind_err (py_get bonds i) (\<lambda>bond. bind_err (py_get bond deriv) (\<lambda>b. Inr (b - v))))
             bd_cond))"

text \<open>
  The call of the external routine \<^verbatim>\<open>scipy.integrate.solve_bvp\<close>: its four
  positional arguments and the two keywords the claims are about, \<open>None\<close> for a keyword
  that the call does not pass. What the routine returns: a status and the interpolant.
\<close>

record bvp_call =
  bvp_fun :: "float64 list \<Rightarrow> float64 list list \<Rightarrow> error + float64 list list"
  bvp_bc :: "float64 list \<Rightarrow> float64 list \<Rightarrow> error + float64 list"
  bvp_x :: "float64 list"
  bvp_y :: "float64 list list"
  bvp_tol :: "real option"
  bvp_max_nodes :: "int option"

record 'sol bvp_result =
  status :: int
  sol :: 'sol

text \<open>
  \<^verbatim>\<open>solve_ode\<close>. \<^verbatim>\<open>np.random.rand\<close> draws from the generator of the process: the
  generator's state \<open>g\<close> is passed in and returned, and \<open>np_random_rand g rows cols\<close> is
  the array drawn and the next state. \<open>solve_ode_call\<close> is the call of line 131.
\<close>

definition solve_ode_call ::
  "float64 list \<Rightarrow> (float64 list \<Rightarrow> float64 list) \<Rightarrow> coeff list \<Rightarrow> (int \<times> int \<times> float64) list
     \<Rightarrow> 't option \<Rightarrow> real \<Rightarrow> int \<Rightarrow> float64 list list option \<Rightarrow> float64 list list \<Rightarrow> bvp_call" where
  "solve_ode_call x fx coeffs bd_cond transform tol max_nodes initial_guess_y y =
     \<lparr> bvp_fun = solve_ode_func transform coeffs fx,
       bvp_bc = solve_ode_bc bd_cond,
       bvp_x = x,
       bvp_y = y,
       bvp_tol = Some (1 / 10 ^ 4),
       bvp_max_nodes = None \<rparr>"

definition solve_ode ::
  "('g \<Rightarrow> nat \<Rightarrow> nat \<Rightarrow> float64 list list \<times> 'g) \<Rightarrow> (bvp_call \<Rightarrow> error + 'sol bvp_result)
     \<Rightarrow> 'g \<Rightarrow> float64 list \<Rightarrow> (float64 list \<Rightarrow> float64 list) \<Rightarrow> coeff list
     \<Rightarrow> (int \<times> int \<times> float64) list \<Rightarrow> 't option \<Rightarrow> real \<Rightarrow> int \<Rightarrow> float64 list list option
     \<Rightarrow> (error + 'sol) \<times> 'g" where
  "solve_ode np_random_rand solve_bvp g x fx coeffs bd_cond transform tol max_nodes initial_guess_y =
     (let order = int (length coeffs) - 1 in
      if int (length bd_cond) \<noteq> order then
        (Inl (NotImplementedError_bd_cond order (length bd_cond)), g)
      else if order > 3 then (Inl NotImplementedError_order, g)
      else
        (case np_random_rand g (nat order) (length x) of
           (y, g') \<Rightarrow>
             (case solve_bvp
                     (solve_ode_call x fx coeffs bd_cond transform tol max_nodes initial_guess_y y) of
                Inl e \<Rightarrow> (Inl e, g')
              | Inr res \<Rightarrow>
                  if status res \<noteq> 0 then (Inl (ValueError_not_converged (status res)), g')
                  else (Inr (sol res), g'))))"

section \<open>Values of the specification\<close>

text \<open>
  Two definitions written from the words of the specification, to compare the code
  with.
\<close>

text \<open>
  The entry the specification gives to the real harmonic of order \<open>m\<close>, from the
  complex harmonic \<open>c\<close> of the same order and degree at the same point: the value of
  \<open>c\<close> for \<open>m = 0\<close>, \<open>sqrt 2 * Re c\<close> for a positive order, \<open>sqrt 2 * Im c\<close> for a
  negative order, and 0 where \<open>c\<close> is not a number.
\<close>

definition real_harmonic :: "int \<Rightarrow> complex128 \<Rightarrow> float64" where
  "real_harmonic m c =
     (case c of
        CNaN \<Rightarrow> 0
      | CFin z \<Rightarrow>
          if m = 0 then Fin (Re z)
          else if 0 < m then Fin (sqrt 2 * Re z)
          else Fin (sqrt 2 * Im z))"

text \<open>
  The transformed coefficient \<open>b_j\<close> of the specification at mesh point \<open>n\<close>, for an
  equation of order \<open>K\<close> with coefficient rows \<open>a\<close> and rows \<open>d1\<close>, \<open>d2\<close>, \<open>d3\<close> of the
  first, second and third derivative of the transform: \<open>b_0 = a_0\<close>; \<open>b_1 = a_1 * d1\<close>,
  plus \<open>a_2 * d2\<close> from order two, plus \<open>a_3 * d3\<close> at order three;
  \<open>b_2 = a_2 * d1 ^ 2\<close>, plus \<open>3 * a_3 * d1 * d2\<close> at order three; \<open>b_3 = a_3 * d1 ^ 3\<close>.
\<close>

definition transformed_coefficient ::
  "nat \<Rightarrow> float64 list list \<Rightarrow> float64 list \<Rightarrow> float64 list \<Rightarrow> float64 list \<Rightarrow> nat \<Rightarrow> nat \<Rightarrow> float64" where
  "transformed_coefficient K a d1 d2 d3 j n =
     (if j = 0 then a ! 0 ! n
      else if j = 1 then
        (if K = 1 then a ! 1 ! n * d1 ! n
         else if K = 2 then a ! 1 ! n * d1 ! n + a ! 2 ! n * d2 ! n
         else a ! 1 ! n * d1 ! n + a ! 2 ! n * d2 ! n + a ! 3 ! n * d3 ! n)
      else if j = 2 then
        (if K = 2 then a ! 2 ! n * (d1 ! n) ^ 2
         else a ! 2 ! n * (d1 ! n) ^ 2 + Fin 3 * a ! 3 ! n * d1 ! n * d2 ! n)
      else a ! 3 ! n * (d1 ! n) ^ 3)"

section \<open>Stand-ins for the external routines\<close>

text \<open>
  The concrete evaluations below need instances of the external routines. The generator
  \<open>counter_rand\<close> draws the same number of \<open>(0, 1)\<close> for every entry and steps its state;
  the solver \<open>echo_bvp\<close> converges at once and returns, as its interpolant, the initial
  guess and the two keywords it was called with.
\<close>

definition counter_rand :: "nat \<Rightarrow> nat \<Rightarrow> nat \<Rightarrow> float64 list list \<times> nat" where
  "counter_rand g rows cols = (replicate rows (replicate cols (Fin (1 / (real g + 2)))), g + 1)"

definition echo_bvp ::
  "bvp_call \<Rightarrow> error + (float64 list list \<times> real option \<times> int option) bvp_result" where
  "echo_bvp call = Inr \<lparr> status = 0, sol = (bvp_y call, bvp_tol call, bvp_max_nodes call) \<rparr>"

section \<open>The solver: initial guess, keywords and status\<close>

lemma solve_ode_arguments_unused:
  "solve_ode R S g x fx c b t tol mn ig = solve_ode R S g x fx c b t tol' mn' ig'"
  by (simp add: solve_ode_def solve_ode_call_def Let_def split: prod.splits)

text \<open>
  C1. A run of \<^verbatim>\<open>solve_ode\<close> whose caller supplies \<^verbatim>\<open>initial_guess_y\<close> should use the
  guess and no random value, so that two such runs give the same result. The code never
  reads the guess: line 130 always draws the initial guess from the generator. Two runs
  on the same arguments, with the guess supplied, that meet the generator in two states
  hand two different guesses to the routine, neither of them the caller's.
\<close>

theorem solve_ode_ignores_initial_guess:
  "solve_ode counter_rand echo_bvp 0 [Fin 0, Fin 1] (\<lambda>x. x) [Number 1, Number 0, Number 1]
     [(0, 0, Fin 0), (1, 0, Fin 1)] (None :: unit option) (1 / 10 ^ 4) 5000
     (Some [[Fin 0, Fin 0], [Fin 0, Fin 0]])
   = (Inr ([[Fin (1 / 2), Fin (1 / 2)], [Fin (1 / 2), Fin (1 / 2)]], Some (1 / 10 ^ 4), None), 1)
   \<and> solve_ode counter_rand echo_bvp 1 [Fin 0, Fin 1] (\<lambda>x. x) [Number 1, Number 0, Number 1]
     [(0, 0, Fin 0), (1, 0, Fin 1)] (None :: unit option) (1 / 10 ^ 4) 5000
     (Some [[Fin 0, Fin 0], [Fin 0, Fin 0]])
   = (Inr ([[Fin (1 / 3), Fin (1 / 3)], [Fin (1 / 3), Fin (1 / 3)]], Some (1 / 10 ^ 4), None), 2)"
  by (simp add: solve_ode_def solve_ode_call_def counter_rand_def echo_bvp_def numeral_2_eq_2)

text \<open>
  C2. The external routine should be called with the caller's tolerance and maximum
  number of mesh nodes. Line 131 passes the constant \<^verbatim>\<open>tol=1e-4\<close> and no
  \<^verbatim>\<open>max_nodes\<close>: a caller asking for tolerance \<open>1e-8\<close> and at most 10 nodes has the
  routine called with tolerance \<open>1e-4\<close> and without the keyword \<^verbatim>\<open>max_nodes\<close>.
\<close>

theorem solve_ode_drops_tol_and_max_nodes:
  "solve_ode counter_rand echo_bvp 0 [Fin 0, Fin 1] (\<lambda>x. x) [Number 1, Number 0, Number 1]
     [(0, 0, Fin 0), (1, 0, Fin 1)] (None :: unit option) (1 / 10 ^ 8) 10 None
   = (Inr ([[Fin (1 / 2), Fin (1 / 2)], [Fin (1 / 2), Fin (1 / 2)]], Some (1 / 10 ^ 4), None), 1)"
  by (simp add: solve_ode_def solve_ode_call_def counter_rand_def echo_bvp_def numeral_2_eq_2)

text \<open>
  C3. For a call of \<^verbatim>\<open>solve_ode\<close> that passes the validation of its arguments (as
  many boundary conditions as the order, and an order of at most three): when the
  external routine returns a result, \<^verbatim>\<open>solve_ode\<close> fails with the convergence error
  that carries the status if the status is not zero, and returns the interpolant of the
  result if the status is zero.
\<close>

theorem solve_ode_status:
  assumes "int (length bd_cond) = int (length coeffs) - 1"
    and "int (length coeffs) - 1 \<le> 3"
    and "solve_bvp (solve_ode_call x fx coeffs bd_cond transform tol max_nodes initial_guess_y
           (fst (np_random_rand g (nat (int (length coeffs) - 1)) (length x)))) = Inr res"
  shows "fst (solve_ode np_random_rand solve_bvp g x fx coeffs bd_cond transform tol max_nodes
           initial_guess_y)
         = (if status res \<noteq> 0 then Inl (ValueError_not_converged (status res)) else Inr (sol res))"
  using assms by (auto simp add: solve_ode_def Let_def split: prod.splits)

theorem solve_ode_status_witness:
  "fst (solve_ode counter_rand (\<lambda>c. Inr \<lparr> status = 2, sol = bvp_x c \<rparr>) 0 [Fin 0, Fin 1] (\<lambda>x. x)
     [Number 1, Number 1] [(0, 0, Fin 0)] (None :: unit option) (1 / 10 ^ 4) 5000 None)
     = Inl (ValueError_not_converged 2)
   \<and> fst (solve_ode counter_rand (\<lambda>c. Inr \<lparr> status = 0, sol = bvp_x c \<rparr>) 0 [Fin 0, Fin 1] (\<lambda>x. x)
     [Number 1, Number 1] [(0, 0, Fin 0)] (None :: unit option) (1 / 10 ^ 4) 5000 None)
     = Inr [Fin 0, Fin 1]"
  using solve_ode_status [of "[(0, 0, Fin 0)]" "[Number 1, Number 1]"
      "\<lambda>c. Inr \<lparr> status = 2, sol = bvp_x c \<rparr>"
      "[Fin 0, Fin 1]" "\<lambda>x. x" "None :: unit option" "1 / 10 ^ 4" 5000 None counter_rand 0
      "\<lparr> status = 2, sol = [Fin 0, Fin 1] \<rparr>"]
    solve_ode_status [of "[(0, 0, Fin 0)]" "[Number 1, Number 1]"
      "\<lambda>c. Inr \<lparr> status = 0, sol = bvp_x c \<rparr>"
      "[Fin 0, Fin 1]" "\<lambda>x. x" "None :: unit option" "1 / 10 ^ 4" 5000 None counter_rand 0
      "\<lparr> status = 0, sol = [Fin 0, Fin 1] \<rparr>"]
  by (simp add: solve_ode_call_def)

section \<open>The transformed coefficients\<close>

text \<open>
  C4. \<^verbatim>\<open>_transform_ode_from_derivs\<close> should return the transformed coefficients. Its
  parameters are named \<^verbatim>\<open>coeffs\<close> and \<^verbatim>\<open>deriv_transformation\<close>, and its body reads
  \<^verbatim>\<open>coeff_a\<close> and \<^verbatim>\<open>deriv_func_list\<close>, which no scope binds: every call raises
  \<^verbatim>\<open>NameError\<close> at line 177 and returns nothing.
\<close>

theorem transform_ode_from_derivs_raises:
  "transform_ode_from_derivs coeffs deriv_transformation r = Inl (NameError ''deriv_func_list'')"
  by (simp add: transform_ode_from_derivs_def transform_ode_from_derivs_body_def load_name_def
      ode_globals_def bind_err_def)

lemma sequence_err_length:
  "sequence_err rs = Inr vs \<Longrightarrow> length vs = length rs \<and> (\<forall>i<length rs. rs ! i = Inr (vs ! i))"
proof (induction rs arbitrary: vs)
  case Nil
  then show ?case by simp
next
  case (Cons r rs)
  then show ?case
    by (auto split: sum.splits simp add: nth_Cons split: nat.splits)
qed

lemma construct_coeff_array_rows:
  assumes "construct_coeff_array x cs = Inr A"
  shows "length A = length cs \<and> (\<forall>i<length cs. length (A ! i) = length x)"
proof -
  let ?row = "\<lambda>val. case val of
                 Number c \<Rightarrow> Inr (map (\<lambda>z. z + c) (replicate (length x) 0))
               | Callable f \<Rightarrow> inplace2 (+) (replicate (length x) 0) (f x)"
  have seq: "sequence_err (map ?row cs) = Inr A"
    using assms by (simp only: construct_coeff_array_def)
  have len: "length A = length cs"
    using sequence_err_length [OF seq] by simp
  have "length (A ! i) = length x" if i: "i < length cs" for i
  proof -
    obtain row where row: "A ! i = row"
      by simp
    have "?row (cs ! i) = Inr row"
      using sequence_err_length [OF seq] i row by simp
    then have "length row = length x"
      by (cases "cs ! i") (auto simp add: inplace2_def split: if_splits)
    then show ?thesis
      using row by simp
  qed
  then show ?thesis
    using len by simp
qed

lemma transform_ode_lines_order3:
  assumes A: "construct_coeff_array r [c0, c1, c2, c3] = Inr A"
    and d: "length (g1 r) = length r" "length (g2 r) = length r" "length (g3 r) = length r"
  shows "transform_ode_lines [c0, c1, c2, c3] [g1, g2, g3] r
    = Inr [A ! 0,
           map2 (+) (map2 (+) (map2 (*) (A ! 1) (g1 r)) (map2 (*) (A ! 2) (g2 r)))
                (map2 (*) (A ! 3) (g3 r)),
           map2 (+) (map2 (*) (A ! 2) (map (\<lambda>d. d ^ 2) (g1 r)))
                (map2 (*) (map2 (*) (map (\<lambda>a. a * Fin 3) (A ! 3)) (g1 r)) (g2 r)),
           map2 (*) (A ! 3) (map (\<lambda>d. d ^ 3) (g1 r))]"
proof -
  have len: "length A = 4" "length (A ! 0) = length r" "length (A ! 1) = length r"
    "length (A ! 2) = length r" "length (A ! 3) = length r"
    using construct_coeff_array_rows [OF A] by simp_all
  have z: "map2 (+) (replicate (length r) (0 :: float64)) v = v" if "length v = length r" for v
    using that by (intro nth_equalityI) simp_all
  have g: "py_get A 0 = Inr (A ! 0)" "py_get A 1 = Inr (A ! 1)" "py_get A 2 = Inr (A ! 2)"
    "py_get A 3 = Inr (A ! 3)"
    using len(1) by (simp_all add: py_get_def)
  have gd: "py_get [g1 r, g2 r, g3 r] 0 = Inr (g1 r)" "py_get [g1 r, g2 r, g3 r] 1 = Inr (g2 r)"
    "py_get [g1 r, g2 r, g3 r] 2 = Inr (g3 r)"
    by (simp_all add: py_get_def)
  show ?thesis
    using len d
    by (simp add: transform_ode_lines_def A bind_err_def g gd Let_def iadd_row_def row_mul_def
        row_map_def broadcast2_def inplace2_def z numeral_3_eq_3 numeral_2_eq_2)
qed


lemma transform_ode_lines_order2:
  assumes A: "construct_coeff_array r [c0, c1, c2] = Inr A"
    and d: "length (g1 r) = length r" "length (g2 r) = length r"
  shows "transform_ode_lines [c0, c1, c2] [g1, g2, g3] r
    = Inr [A ! 0,
           map2 (+) (map2 (*) (A ! 1) (g1 r)) (map2 (*) (A ! 2) (g2 r)),
           map2 (*) (A ! 2) (map (\<lambda>d. d ^ 2) (g1 r))]"
proof -
  have len: "length A = 3" "length (A ! 0) = length r" "length (A ! 1) = length r"
    "length (A ! 2) = length r"
    using construct_coeff_array_rows [OF A] by simp_all
  have z: "map2 (+) (replicate (length r) (0 :: float64)) v = v" if "length v = length r" for v
    using that by (intro nth_equalityI) simp_all
  have g: "py_get A 0 = Inr (A ! 0)" "py_get A 1 = Inr (A ! 1)" "py_get A 2 = Inr (A ! 2)"
    using len(1) by (simp_all add: py_get_def)
  have gd: "py_get [g1 r, g2 r, g3 r] 0 = Inr (g1 r)" "py_get [g1 r, g2 r, g3 r] 1 = Inr (g2 r)"
    by (simp_all add: py_get_def)
  show ?thesis
    using len d
    by (simp add: transform_ode_lines_def A bind_err_def g gd Let_def iadd_row_def row_mul_def
        row_map_def broadcast2_def inplace2_def z numeral_3_eq_3 numeral_2_eq_2)
qed

lemma transform_ode_lines_order1:
  assumes A: "construct_coeff_array r [c0, c1] = Inr A"
    and d: "length (g1 r) = length r"
  shows "transform_ode_lines [c0, c1] [g1, g2, g3] r = Inr [A ! 0, map2 (*) (A ! 1) (g1 r)]"
proof -
  have len: "length A = 2" "length (A ! 0) = length r" "length (A ! 1) = length r"
    using construct_coeff_array_rows [OF A] by simp_all
  have z: "map2 (+) (replicate (length r) (0 :: float64)) v = v" if "length v = length r" for v
    using that by (intro nth_equalityI) simp_all
  have g: "py_get A 0 = Inr (A ! 0)" "py_get A 1 = Inr (A ! 1)"
    using len(1) by (simp_all add: py_get_def)
  have gd: "py_get [g1 r, g2 r, g3 r] 0 = Inr (g1 r)"
    by (simp_all add: py_get_def)
  show ?thesis
    using len d
    by (simp add: transform_ode_lines_def A bind_err_def g gd Let_def iadd_row_def row_mul_def
        row_map_def broadcast2_def inplace2_def z numeral_2_eq_2)
qed

lemma transform_ode_lines_order0:
  assumes A: "construct_coeff_array r [c0] = Inr A"
  shows "transform_ode_lines [c0] [g1, g2, g3] r = Inr [A ! 0]"
proof -
  have len: "length A = 1" "length (A ! 0) = length r"
    using construct_coeff_array_rows [OF A] by simp_all
  have z: "map2 (+) (replicate (length r) (0 :: float64)) v = v" if "length v = length r" for v
    using that by (intro nth_equalityI) simp_all
  have g: "py_get A 0 = Inr (A ! 0)"
    using len(1) by (simp_all add: py_get_def)
  show ?thesis
    using len
    by (simp add: transform_ode_lines_def A bind_err_def g Let_def iadd_row_def inplace2_def z)
qed

text \<open>
  What lines 177 to 209 compute once their names are bound, \<^verbatim>\<open>coeff_a\<close> to the
  coefficients and \<^verbatim>\<open>deriv_func_list\<close> to the three derivatives of the transform: for
  an order \<open>K\<close> of at most three they return \<open>K + 1\<close> rows, and row \<open>j\<close> holds at every mesh
  point the transformed coefficient \<open>b_j\<close> of the specification. The defect of
  \<^verbatim>\<open>_transform_ode_from_derivs\<close> is the binding of the two names, not the formulas.
\<close>

theorem transform_ode_lines_formula:
  assumes K: "length coeff_a = K + 1" "K \<le> 3"
    and A: "construct_coeff_array r coeff_a = Inr A"
    and d: "length (g1 r) = length r" "length (g2 r) = length r" "length (g3 r) = length r"
    and j: "j \<le> K" and n: "n < length r"
  shows "\<exists>B. transform_ode_lines coeff_a [g1, g2, g3] r = Inr B \<and> length B = K + 1
      \<and> B ! j ! n = transformed_coefficient K A (g1 r) (g2 r) (g3 r) j n"
proof -
  have rows: "length (A ! i) = length r" if "i \<le> K" for i
    using construct_coeff_array_rows [OF A] K(1) that by simp
  consider "K = 0" | "K = 1" | "K = 2" | "K = 3"
    using K(2) by linarith
  then show ?thesis
  proof cases
    case 1
    then obtain c0 where c: "coeff_a = [c0]"
      using K(1) by (auto simp add: length_Suc_conv)
    have "j = 0"
      using j 1 by simp
    then show ?thesis
      using transform_ode_lines_order0 [of r c0 A g1 g2 g3, OF A [unfolded c]] 1
      by (simp add: c transformed_coefficient_def)
  next
    case 2
    then obtain c0 c1 where c: "coeff_a = [c0, c1]"
      using K(1) by (auto simp add: length_Suc_conv)
    have l: "length (A ! 1) = length r"
      using rows [of 1] 2 by simp
    have B: "transform_ode_lines coeff_a [g1, g2, g3] r = Inr [A ! 0, map2 (*) (A ! 1) (g1 r)]"
      using transform_ode_lines_order1 [of r c0 c1 A g1 g2 g3, OF A [unfolded c] d(1)] by (simp add: c)
    have "j = 0 \<or> j = 1"
      using j 2 by linarith
    then show ?thesis
    proof
      assume "j = 0"
      then show ?thesis
        using B 2 by (simp add: transformed_coefficient_def)
    next
      assume "j = 1"
      then show ?thesis
        using B 2 n d(1) l by (simp add: transformed_coefficient_def)
    qed
  next
    case 3
    then obtain c0 c1 c2 where c: "coeff_a = [c0, c1, c2]"
      using K(1) by (auto simp add: length_Suc_conv numeral_2_eq_2)
    have l: "length (A ! 1) = length r" "length (A ! 2) = length r"
      using rows [of 1] rows [of 2] 3 by simp_all
    have B: "transform_ode_lines coeff_a [g1, g2, g3] r
        = Inr [A ! 0,
               map2 (+) (map2 (*) (A ! 1) (g1 r)) (map2 (*) (A ! 2) (g2 r)),
               map2 (*) (A ! 2) (map (\<lambda>d. d ^ 2) (g1 r))]"
      using transform_ode_lines_order2 [of r c0 c1 c2 A g1 g2 g3, OF A [unfolded c] d(1,2)] by (simp add: c)
    have "j = 0 \<or> j = 1 \<or> j = 2"
      using j 3 by linarith
    then show ?thesis
    proof (elim disjE)
      assume "j = 0"
      then show ?thesis
        using B 3 by (simp add: transformed_coefficient_def)
    next
      assume "j = 1"
      then show ?thesis
        using B 3 n d l by (simp add: transformed_coefficient_def)
    next
      assume "j = 2"
      then show ?thesis
        using B 3 n d l by (simp add: transformed_coefficient_def)
    qed
  next
    case 4
    then obtain c0 c1 c2 c3 where c: "coeff_a = [c0, c1, c2, c3]"
      using K(1) by (auto simp add: length_Suc_conv numeral_3_eq_3)
    have l: "length (A ! 1) = length r" "length (A ! 2) = length r" "length (A ! 3) = length r"
      using rows [of 1] rows [of 2] rows [of 3] 4 by simp_all
    have B: "transform_ode_lines coeff_a [g1, g2, g3] r
        = Inr [A ! 0,
           map2 (+) (map2 (+) (map2 (*) (A ! 1) (g1 r)) (map2 (*) (A ! 2) (g2 r)))
                (map2 (*) (A ! 3) (g3 r)),
           map2 (+) (map2 (*) (A ! 2) (map (\<lambda>d. d ^ 2) (g1 r)))
                (map2 (*) (map2 (*) (map (\<lambda>a. a * Fin 3) (A ! 3)) (g1 r)) (g2 r)),
           map2 (*) (A ! 3) (map (\<lambda>d. d ^ 3) (g1 r))]"
      using transform_ode_lines_order3 [of r c0 c1 c2 c3 A g1 g2 g3, OF A [unfolded c] d] by (simp add: c)
    have "j = 0 \<or> j = 1 \<or> j = 2 \<or> j = 3"
      using j 4 by linarith
    then show ?thesis
    proof (elim disjE)
      assume "j = 0"
      then show ?thesis
        using B 4 by (simp add: transformed_coefficient_def)
    next
      assume "j = 1"
      then show ?thesis
        using B 4 n d l by (simp add: transformed_coefficient_def)
    next
      assume "j = 2"
      then show ?thesis
        using B 4 n d l
        by (simp add: transformed_coefficient_def mult.commute [of "Fin 3"])
    next
      assume "j = 3"
      then show ?thesis
        using B 4 n d l by (simp add: transformed_coefficient_def)
    qed
  qed
qed

theorem transform_ode_lines_formula_witness:
  "\<exists>B. transform_ode_lines [Number (Fin 1), Number (Fin 2), Number (Fin 3), Number (Fin 4)]
         [\<lambda>r. [Fin 2], \<lambda>r. [Fin 5], \<lambda>r. [Fin 7]] [Fin 0] = Inr B
     \<and> length B = 4 \<and> B ! 1 ! 0 = Fin 47"
  using transform_ode_lines_formula [of "[Number (Fin 1), Number (Fin 2), Number (Fin 3), Number (Fin 4)]"
      3 "[Fin 0]" "[[Fin 1], [Fin 2], [Fin 3], [Fin 4]]" "\<lambda>r. [Fin 2]" "\<lambda>r. [Fin 5]" "\<lambda>r. [Fin 7]" 1 0]
  by (simp add: construct_coeff_array_def transformed_coefficient_def zero_float64_def)

section \<open>The real spherical harmonics\<close>

lemma map2_same: "map2 f xs (map g xs) = map (\<lambda>x. f x (g x)) xs"
  by (induction xs) simp_all

lemma ew2_ew1_same: "ew2 f A (ew1 g A) = ew1 (\<lambda>c. f c (g c)) A"
  by (simp add: ew2_def ew1_def map2_same)

lemma ew1_ew1: "ew1 f (ew1 g A) = ew1 (\<lambda>c. f (g c)) A"
  by (simp add: ew1_def comp_def)

lemma slice_index_nat: "slice_index n (int k) = min n k"
  by (simp add: slice_index_def)

lemma slice_index_one: "slice_index n 1 = min n 1"
  by (simp add: slice_index_def)

lemma slice_index_tail:
  "slice_index n (1 - int (Suc L)) = (if L = 0 then 0 else n - L)"
  "slice_index n (- int (Suc L) + 1) = (if L = 0 then 0 else n - L)"
  by (auto simp add: slice_index_def)

lemma convert_ylm_to_zlm_rows:
  assumes "length A = Suc (2 * L)" and "length (A ! 0) = Suc L" and "0 < L"
  shows "convert_ylm_to_zlm A
    = Inr (map (map cast_float) (A ! 0) # ew1 positive_rows_entry (take L (drop 1 A))
           @ ew1 negative_rows_entry (drop (Suc L) A))"
proof -
  obtain r rs where A: "A = r # rs"
    using assms(1) by (cases A) auto
  have ls: "(case A of [] \<Rightarrow> 0 | r # _ \<Rightarrow> length r) = Suc L"
    using assms(2) A by simp
  have s1: "py_slice A 1 (int (Suc L)) = take L (drop 1 A)"
    unfolding py_slice_def Let_def slice_index_nat slice_index_one using assms by simp
  have s2: "py_slice_from A (- int (Suc L) + 1) = drop (Suc L) A"
    unfolding py_slice_from_def slice_index_tail using assms by simp
  have g: "py_get A 0 = Inr (A ! 0)"
    using assms by (simp add: py_get_def)
  show ?thesis
    unfolding convert_ylm_to_zlm_def ls Let_def s1 s2 ew2_ew1_same ew1_ew1
      set_slice_def set_slice_from_def g slice_index_tail slice_index_one
    using assms
    apply (simp add: bind_err_def del: of_nat_Suc)
    apply (simp add: ew1_def A positive_rows_entry_def negative_rows_entry_def)
    done
qed

lemma two_over_sqrt2: "2 * x / sqrt 2 = sqrt 2 * x"
proof -
  have "sqrt 2 * sqrt 2 = (2 :: real)" by simp
  then show ?thesis
    by (metis mult.commute nonzero_mult_div_cancel_right real_sqrt_eq_zero_cancel_iff
        times_divide_eq_right zero_neq_numeral)
qed

lemma re_sum_cnj: "Re ((z + cnj z) / complex_of_real (sqrt 2)) = sqrt 2 * Re z"
proof -
  have "z + cnj z = complex_of_real (2 * Re z)"
    by (simp add: complex_add_cnj)
  then have "(z + cnj z) / complex_of_real (sqrt 2) = complex_of_real (2 * Re z / sqrt 2)"
    by (simp only: of_real_divide)
  then show ?thesis
    by (simp only: Re_complex_of_real two_over_sqrt2)
qed

lemma re_diff_cnj: "Re ((z - cnj z) / (complex_of_real (sqrt 2) * \<i>)) = sqrt 2 * Im z"
proof -
  have "z - cnj z = complex_of_real (2 * Im z) * \<i>"
    by (simp add: complex_diff_cnj)
  then have "(z - cnj z) / (complex_of_real (sqrt 2) * \<i>) = complex_of_real (2 * Im z / sqrt 2)"
    by (simp only: of_real_divide) simp
  then show ?thesis
    by (simp only: Re_complex_of_real two_over_sqrt2)
qed

lemma real_harmonic_order_zero: "nan_to_num (cast_float c) = real_harmonic 0 c"
  by (cases c) (simp_all add: real_harmonic_def)

lemma real_harmonic_order_positive: "0 < m \<Longrightarrow> nan_to_num (positive_rows_entry c) = real_harmonic m c"
  by (cases c) (simp_all add: real_harmonic_def positive_rows_entry_def np_sqrt2_def re_sum_cnj two_over_sqrt2)

lemma real_harmonic_order_negative: "m < 0 \<Longrightarrow> nan_to_num (negative_rows_entry c) = real_harmonic m c"
  by (cases c) (simp_all add: real_harmonic_def negative_rows_entry_def np_sqrt2_1j_def re_diff_cnj two_over_sqrt2)


lemma convert_ylm_to_zlm_degree_zero:
  assumes "length A = 1" and "length (A ! 0) = 1"
  shows "convert_ylm_to_zlm A = Inr [map (map cast_float) (A ! 0)]"
proof -
  obtain r where A: "A = [r]"
    using assms(1) by (cases A) auto
  obtain v where r: "r = [v]"
    using assms(2) A by (cases r) auto
  show ?thesis
    by (simp add: convert_ylm_to_zlm_def A r py_get_def bind_err_def set_slice_def
        set_slice_from_def py_slice_def py_slice_from_def slice_index_def ew1_def ew2_def)
qed

lemma generate_sph_harms_eq:
  "length theta = length phi \<Longrightarrow>
   generate_sph_harms Y l_max theta phi
     = Inr (map (\<lambda>mi. map (\<lambda>li. map (\<lambda>(t, p). Y mi li t p) (zip theta phi)) [0..l_max])
            ([0..l_max] @ [- l_max..-1]))"
  by (simp add: generate_sph_harms_def generate_sph_paras_def broadcast2_def bind_err_def)

lemma generate_real_sph_harms_eq:
  assumes "0 \<le> l_max" and "length theta = length phi"
  shows "generate_real_sph_harms Y l_max theta phi
     = Inr (map (\<lambda>m. map (\<lambda>l. map (\<lambda>(t, p). real_harmonic m (Y m l t p)) (zip theta phi))
                            [0..l_max])
            ([0..l_max] @ [- l_max..-1]))"
proof (cases "l_max = 0")
  case True
  have u: "[0..(0::int)] = [0]" "[- (0::int)..-1] = []"
    by (simp_all add: upto_rec1)
  show ?thesis
    unfolding generate_real_sph_harms_def generate_sph_harms_eq [OF assms(2)] True u
    by (simp add: bind_err_def convert_ylm_to_zlm_degree_zero ew1_def real_harmonic_order_zero comp_def case_prod_beta)
next
  case False
  define L where "L = nat l_max"
  define F where "F = (\<lambda>mi. map (\<lambda>li. map (\<lambda>(t, p). Y mi li t p) (zip theta phi)) [0..l_max])"
  define T where "T = map F ([0..l_max] @ [- l_max..-1])"
  have L: "0 < L" "l_max = int L"
    using False assms(1) by (simp_all add: L_def)
  have split: "[0..l_max] @ [- l_max..-1] = 0 # [1..l_max] @ [- l_max..-1]"
    using assms(1) by (simp add: upto_rec1)
  have T: "T = F 0 # map F [1..l_max] @ map F [- l_max..-1]"
    by (simp add: T_def split)
  have len: "length T = Suc (2 * L)"
    by (simp add: T L(2))
  have len0: "length (T ! 0) = Suc L"
    by (simp add: T F_def L(2))
  have lenp: "length (map F [1..l_max]) = L"
    by (simp add: L(2))
  have tk: "take L (drop 1 T) = map F [1..l_max]"
    using lenp by (simp add: T)
  have dr: "drop (Suc L) T = map F [- l_max..-1]"
    using lenp by (simp add: T)
  have t0: "T ! 0 = F 0"
    by (simp add: T)
  have conv: "convert_ylm_to_zlm T
      = Inr (map (map cast_float) (F 0) # ew1 positive_rows_entry (map F [1..l_max])
             @ ew1 negative_rows_entry (map F [- l_max..-1]))"
    using convert_ylm_to_zlm_rows [OF len len0 L(1)] unfolding tk dr t0 .
  have gen: "generate_sph_harms Y l_max theta phi = Inr T"
    by (simp add: generate_sph_harms_eq [OF assms(2)] T_def F_def)
  show ?thesis
    unfolding generate_real_sph_harms_def gen
    by (simp add: bind_err_def conv split ew1_def F_def comp_def case_prod_beta
        real_harmonic_order_zero real_harmonic_order_positive real_harmonic_order_negative)
qed

lemma orders_nth_nonneg:
  assumes "0 \<le> l_max" and "m \<le> nat l_max"
  shows "([0..l_max] @ [- l_max..-1]) ! m = int m"
proof -
  have "m < length [0..l_max]"
    using assms by simp
  then have "([0..l_max] @ [- l_max..-1]) ! m = [0..l_max] ! m"
    by (simp only: nth_append if_True)
  also have "\<dots> = int m"
    using assms by simp
  finally show ?thesis .
qed

lemma orders_nth_neg:
  assumes "0 \<le> l_max" and "1 \<le> m" and "m \<le> nat l_max"
  shows "([0..l_max] @ [- l_max..-1]) ! (2 * nat l_max + 1 - m) = - int m"
proof -
  have len: "length [0..l_max] = nat l_max + 1"
    using assms by simp
  have ge: "\<not> 2 * nat l_max + 1 - m < length [0..l_max]"
    using assms len by linarith
  have ix: "2 * nat l_max + 1 - m - length [0..l_max] = nat l_max - m"
    using assms len by linarith
  have "([0..l_max] @ [- l_max..-1]) ! (2 * nat l_max + 1 - m) = [- l_max..-1] ! (nat l_max - m)"
    using ge ix by (simp only: nth_append if_False)
  also have "\<dots> = - int m"
    using assms by simp
  finally show ?thesis .
qed

text \<open>
  C5. For \<^verbatim>\<open>l_max >= 0\<close> and angle arrays of one length, \<^verbatim>\<open>generate_real_sph_harms\<close>
  returns a tensor of \<open>2 * l_max + 1\<close> rows in which, for every degree \<open>l\<close> and every
  point \<open>n\<close>: row 0 holds the value of the complex harmonic of order 0; row \<open>m\<close>, for
  \<open>m = 1, ..., l_max\<close>, holds \<open>sqrt 2 * Re\<close> of the complex harmonic of order \<open>m\<close>; and
  the row of order \<open>- m\<close>, stored at index \<open>2 * l_max + 1 - m\<close> at the tail of the order
  axis, holds \<open>sqrt 2 * Im\<close> of the complex harmonic of order \<open>- m\<close>, the one
  \<^verbatim>\<open>generate_sph_harms\<close> stores in that row. An entry whose complex harmonic is not a
  number is 0.
\<close>

theorem generate_real_sph_harms_rows:
  assumes "0 \<le> l_max" and "length theta = length phi" and "l \<le> nat l_max"
    and "n < length theta"
  shows "\<exists>R. generate_real_sph_harms Y l_max theta phi = Inr R
      \<and> length R = 2 * nat l_max + 1
      \<and> R ! 0 ! l ! n = real_harmonic 0 (Y 0 (int l) (theta ! n) (phi ! n))
      \<and> (\<forall>m. 1 \<le> m \<and> m \<le> nat l_max \<longrightarrow>
            R ! m ! l ! n = real_harmonic (int m) (Y (int m) (int l) (theta ! n) (phi ! n)))
      \<and> (\<forall>m. 1 \<le> m \<and> m \<le> nat l_max \<longrightarrow>
            R ! (2 * nat l_max + 1 - m) ! l ! n
              = real_harmonic (- int m) (Y (- int m) (int l) (theta ! n) (phi ! n)))"
proof -
  let ?ms = "[0..l_max] @ [- l_max..-1]"
  let ?R = "map (\<lambda>m. map (\<lambda>l. map (\<lambda>(t, p). real_harmonic m (Y m l t p)) (zip theta phi))
                            [0..l_max]) ?ms"
  have eq: "generate_real_sph_harms Y l_max theta phi = Inr ?R"
    using assms(1,2) by (rule generate_real_sph_harms_eq)
  have len: "length ?ms = 2 * nat l_max + 1"
    using assms(1) by simp
  have entry: "?R ! i ! l ! n = real_harmonic (?ms ! i) (Y (?ms ! i) (int l) (theta ! n) (phi ! n))"
    if "i < 2 * nat l_max + 1" for i
  proof -
    have "?R ! i = map (\<lambda>l. map (\<lambda>(t, p). real_harmonic (?ms ! i) (Y (?ms ! i) l t p)) (zip theta phi))
                            [0..l_max]"
      using that len by (simp only: nth_map)
    moreover have "l < length [0..l_max]" "[0..l_max] ! l = int l"
      using assms(1,3) by simp_all
    ultimately show ?thesis
      using assms(2,4) by simp
  qed
  have zero: "?R ! 0 ! l ! n = real_harmonic 0 (Y 0 (int l) (theta ! n) (phi ! n))"
    using entry [of 0] orders_nth_nonneg [OF assms(1), of 0] by simp
  have pos: "?R ! m ! l ! n = real_harmonic (int m) (Y (int m) (int l) (theta ! n) (phi ! n))"
    if "1 \<le> m \<and> m \<le> nat l_max" for m
    using entry [of m] orders_nth_nonneg [OF assms(1), of m] that by simp
  have neg: "?R ! (2 * nat l_max + 1 - m) ! l ! n
              = real_harmonic (- int m) (Y (- int m) (int l) (theta ! n) (phi ! n))"
    if "1 \<le> m \<and> m \<le> nat l_max" for m
    using entry [of "2 * nat l_max + 1 - m"] orders_nth_neg [OF assms(1), of m] that by simp
  show ?thesis
    using eq len zero pos neg by (intro exI [of _ ?R]) simp
qed

theorem generate_real_sph_harms_rows_witness:
  "\<exists>R. generate_real_sph_harms (\<lambda>m l t p. CFin (Complex (of_int m) (of_int l))) 1 [Fin 0] [Fin 0] = Inr R
     \<and> length R = 3
     \<and> R ! 0 ! 1 ! 0 = Fin 0
     \<and> R ! 1 ! 1 ! 0 = Fin (sqrt 2)
     \<and> R ! 2 ! 1 ! 0 = Fin (sqrt 2)"
proof -
  obtain R where R: "generate_real_sph_harms (\<lambda>m l t p. CFin (Complex (of_int m) (of_int l))) 1 [Fin 0] [Fin 0] = Inr R"
    "length R = 2 * nat 1 + 1"
    "R ! 0 ! 1 ! 0 = real_harmonic 0 (CFin (Complex (of_int 0) (of_int (int 1))))"
    "\<forall>m. 1 \<le> m \<and> m \<le> nat 1 \<longrightarrow>
            R ! m ! 1 ! 0 = real_harmonic (int m) (CFin (Complex (of_int (int m)) (of_int (int 1))))"
    "\<forall>m. 1 \<le> m \<and> m \<le> nat 1 \<longrightarrow>
            R ! (2 * nat 1 + 1 - m) ! 1 ! 0
              = real_harmonic (- int m) (CFin (Complex (of_int (- int m)) (of_int (int 1))))"
    using generate_real_sph_harms_rows [of 1 "[Fin 0]" "[Fin 0]" 1 0
        "\<lambda>m l t p. CFin (Complex (of_int m) (of_int l))"]
    by auto
  from R(4) [rule_format, of 1] have p: "R ! 1 ! 1 ! 0 = Fin (sqrt 2)"
    by (simp add: real_harmonic_def)
  from R(5) [rule_format, of 1] have n: "R ! 2 ! 1 ! 0 = Fin (sqrt 2)"
    by (simp add: real_harmonic_def)
  from R(3) have z: "R ! 0 ! 1 ! 0 = Fin 0"
    by (simp add: real_harmonic_def)
  show ?thesis
    using R(1,2) p n z by simp
qed

section \<open>The projection\<close>

lemma sequence_err_Inr:
  "(\<And>x. x \<in> set xs \<Longrightarrow> g x = Inr (f x)) \<Longrightarrow> sequence_err (map g xs) = Inr (map f xs)"
  by (induction xs) simp_all

lemma mul_last_ok:
  assumes "\<And>plane u. plane \<in> set A \<Longrightarrow> u \<in> set plane \<Longrightarrow> length u = length v"
  shows "mul_last A v = Inr (map (map (\<lambda>u. map2 (*) u v)) A)"
  unfolding mul_last_def
proof (rule sequence_err_Inr)
  fix plane assume p: "plane \<in> set A"
  show "sequence_err (map (\<lambda>u. broadcast2 (*) u v) plane) = Inr (map (\<lambda>u. map2 (*) u v) plane)"
  proof (rule sequence_err_Inr)
    fix u assume "u \<in> set plane"
    then show "broadcast2 (*) u v = Inr (map2 (*) u v)"
      using assms [OF p] by (simp add: broadcast2_def)
  qed
qed

lemma slice_sum:
  assumes "i \<le> j" and "j \<le> length u"
  shows "sum_list (take (j - i) (drop i u)) = (\<Sum>n = i..<j. u ! n)"
proof -
  have "take (j - i) (drop i u) = map ((!) u) [i..<j]"
    using assms by (intro nth_equalityI) simp_all
  then show ?thesis
    by (simp add: interv_sum_list_conv_sum_set_nat)
qed

lemma py_slice_sum:
  fixes u :: "float64 list"
  assumes "0 \<le> a" and "a \<le> b" and "b \<le> int (length u)"
  shows "sum_list (py_slice u a b) = (\<Sum>n = nat a..<nat b. u ! n)"
proof -
  have "slice_index (length u) a = nat a" "slice_index (length u) b = nat b"
    using assms by (simp_all add: slice_index_def)
  then show ?thesis
    using assms by (simp add: py_slice_def Let_def slice_sum nat_le_iff nat_mono)
qed


lemma project_value:
  assumes shape: "\<And>plane u. plane \<in> set sph_harm \<Longrightarrow> u \<in> set plane \<Longrightarrow> length u = N"
    and "length value_arrays = N" and "length weights = N"
    and "2 \<le> length indices"
  shows "project_function_onto_spherical_expansion sph_harm value_arrays weights indices
    = Inr (map (\<lambda>i. map (map (\<lambda>u. nan_to_num (sum_list
              (py_slice (map2 (*) (map2 (*) u value_arrays) weights)
                 (indices ! i) (indices ! (i + 1))))))
                 sph_harm)
           [0..<length indices - 1])"
proof -
  have m1: "mul_last sph_harm value_arrays = Inr (map (map (\<lambda>u. map2 (*) u value_arrays)) sph_harm)"
    using assms by (intro mul_last_ok) simp
  have m2: "mul_last (map (map (\<lambda>u. map2 (*) u value_arrays)) sph_harm) weights
      = Inr (map (map (\<lambda>u. map2 (*) u weights)) (map (map (\<lambda>u. map2 (*) u value_arrays)) sph_harm))"
    using assms by (intro mul_last_ok) (auto simp add: shape)
  have ne: "[0..<length indices - 1] \<noteq> []"
    using assms(4) by simp
  show ?thesis
    using ne
    by (simp add: project_function_onto_spherical_expansion_def bind_err_def m1 m2 Let_def
        ew1_def comp_def)
qed


lemma shell_sum:
  fixes u :: "float64 list"
  assumes "length u = N" and "length v = N" and "length w = N"
    and "0 \<le> a" and "a \<le> b" and "b \<le> int N"
  shows "sum_list (py_slice (map2 (*) (map2 (*) u v) w) a b)
     = (\<Sum>n = nat a..<nat b. u ! n * v ! n * w ! n)"
proof -
  have "sum_list (py_slice (map2 (*) (map2 (*) u v) w) a b)
      = (\<Sum>n = nat a..<nat b. map2 (*) (map2 (*) u v) w ! n)"
    using assms by (intro py_slice_sum) simp_all
  also have "\<dots> = (\<Sum>n = nat a..<nat b. u ! n * v ! n * w ! n)"
    using assms by (intro sum.cong) auto
  finally show ?thesis .
qed

text \<open>
  C6, as stated: for every index list of length \<open>K + 1\<close> the projection returns an array
  of shape \<open>(K, M, L)\<close> whose entries are the sums over the shells, a sum that is not a
  number being replaced by 0. Two inputs fail it. For \<open>K = 0\<close> (no point, the index list
  \<open>[0]\<close>) the projection returns nothing: \<^verbatim>\<open>np.stack\<close> raises on the empty list of
  shells. And a sum that is infinite is not returned as it is: \<^verbatim>\<open>np.nan_to_num\<close>
  replaces it by the largest finite double.
\<close>

theorem project_function_counterexample:
  "project_function_onto_spherical_expansion [[[]]] [] [] [0] = Inl ValueError_stack
   \<and> project_function_onto_spherical_expansion [[[PInf]]] [Fin 1] [Fin 1] [0, 1]
       = Inr [[[Fin float_max]]]
   \<and> (\<Sum>n = 0..<1. [[[PInf]]] ! 0 ! 0 ! n * [Fin 1] ! n * [Fin 1] ! n) = PInf"
  by (simp add: project_function_onto_spherical_expansion_def mul_last_def broadcast2_def
      bind_err_def ew1_def py_slice_def slice_index_def inf_of_sign_def)

text \<open>
  C6, amended: for a harmonic tensor of shape \<open>(M, L, N)\<close>, values and weights of length
  \<open>N\<close>, and an index list of length \<open>K + 1\<close> with \<open>K >= 1\<close> whose entries partition the
  \<open>N\<close> points (it starts at 0, ends at \<open>N\<close> and does not decrease), the projection
  returns an array of shape \<open>(K, M, L)\<close> whose entry \<open>(k, m, l)\<close> is the sum over the
  points \<open>n\<close> from \<open>indices[k]\<close> up to \<open>indices[k + 1]\<close> of harmonic times value times
  weight (exact on finite values), with a sum that is not a number replaced by 0 and an
  infinite sum replaced by the largest finite double of its sign.
\<close>

theorem project_function_entries:
  assumes shape: "\<And>plane u. plane \<in> set sph_harm \<Longrightarrow> u \<in> set plane \<Longrightarrow> length u = N"
    and lv: "length value_arrays = N" and lw: "length weights = N"
    and li: "length indices = K + 1" and K: "0 < K"
    and first: "indices ! 0 = 0" and last: "indices ! K = int N" and sorted: "sorted indices"
  shows "\<exists>R. project_function_onto_spherical_expansion sph_harm value_arrays weights indices = Inr R
      \<and> length R = K
      \<and> (\<forall>k<K. length (R ! k) = length sph_harm
            \<and> (\<forall>m<length sph_harm. length (R ! k ! m) = length (sph_harm ! m)
                  \<and> (\<forall>l<length (sph_harm ! m).
                        R ! k ! m ! l
                          = nan_to_num (\<Sum>n = nat (indices ! k)..<nat (indices ! (k + 1)).
                               sph_harm ! m ! l ! n * value_arrays ! n * weights ! n))))"
proof -
  let ?R = "map (\<lambda>i. map (map (\<lambda>u. nan_to_num (sum_list
              (py_slice (map2 (*) (map2 (*) u value_arrays) weights)
                 (indices ! i) (indices ! (i + 1))))))
                 sph_harm)
           [0..<length indices - 1]"
  have val: "project_function_onto_spherical_expansion sph_harm value_arrays weights indices = Inr ?R"
    using li K by (intro project_value [OF shape lv lw]) simp_all
  have entry: "?R ! k ! m ! l
      = nan_to_num (\<Sum>n = nat (indices ! k)..<nat (indices ! (k + 1)).
           sph_harm ! m ! l ! n * value_arrays ! n * weights ! n)"
    if k: "k < K" and m: "m < length sph_harm" and l: "l < length (sph_harm ! m)" for k m l
  proof -
    have lo: "0 \<le> indices ! k"
      using sorted_nth_mono [OF sorted, of 0 k] k li first by simp
    have mid: "indices ! k \<le> indices ! (k + 1)"
      using sorted_nth_mono [OF sorted, of k "k + 1"] k li by simp
    have hi: "indices ! (k + 1) \<le> int N"
      using sorted_nth_mono [OF sorted, of "k + 1" K] k li last by simp
    have len: "length (sph_harm ! m ! l) = N"
      using m l by (intro shape [of "sph_harm ! m"]) simp_all
    show ?thesis
      using k m l li shell_sum [OF len lv lw lo mid hi] by simp
  qed
  show ?thesis
    using val li entry by (intro exI [of _ ?R]) simp
qed

theorem project_function_entries_witness:
  "\<exists>R. project_function_onto_spherical_expansion [[[Fin 1, Fin 2, NaN, NInf]]] [Fin 1, Fin 1, Fin 1, Fin 1]
         [Fin 2, Fin 2, Fin 2, Fin 2] [0, 2, 3, 4] = Inr R
     \<and> length R = 3
     \<and> R ! 0 ! 0 ! 0 = Fin 6
     \<and> R ! 1 ! 0 ! 0 = Fin 0
     \<and> R ! 2 ! 0 ! 0 = Fin (- float_max)"
proof -
  obtain R where R: "project_function_onto_spherical_expansion [[[Fin 1, Fin 2, NaN, NInf]]] [Fin 1, Fin 1, Fin 1, Fin 1]
         [Fin 2, Fin 2, Fin 2, Fin 2] [0, 2, 3, 4] = Inr R" "length R = 3"
     "\<forall>k<3. length (R ! k) = length [[[Fin 1, Fin 2, NaN, NInf]]]
            \<and> (\<forall>m<length [[[Fin 1, Fin 2, NaN, NInf]]]. length (R ! k ! m) = length ([[[Fin 1, Fin 2, NaN, NInf]]] ! m)
                  \<and> (\<forall>l<length ([[[Fin 1, Fin 2, NaN, NInf]]] ! m).
                        R ! k ! m ! l
                          = nan_to_num (\<Sum>n = nat ([0, 2, 3, 4] ! k)..<nat ([0, 2, 3, 4] ! (k + 1)).
                               [[[Fin 1, Fin 2, NaN, NInf]]] ! m ! l ! n * [Fin 1, Fin 1, Fin 1, Fin 1] ! n * [Fin 2, Fin 2, Fin 2, Fin 2] ! n)))"
    using project_function_entries [of "[[[Fin 1, Fin 2, NaN, NInf]]]" 4 "[Fin 1, Fin 1, Fin 1, Fin 1]"
        "[Fin 2, Fin 2, Fin 2, Fin 2]" "[0, 2, 3, 4]" 3]
    by auto
  from R(3) have "R ! 0 ! 0 ! 0 = Fin 6"
    by (simp add: numeral_2_eq_2 numeral_3_eq_3 zero_float64_def)
  moreover from R(3) have "R ! 1 ! 0 ! 0 = Fin 0"
    by (simp add: numeral_2_eq_2 numeral_3_eq_3 zero_float64_def)
  moreover from R(3) have "R ! 2 ! 0 ! 0 = Fin (- float_max)"
    by (simp add: eval_nat_numeral zero_float64_def inf_of_sign_def)
  ultimately show ?thesis
    using R(1,2) by simp
qed

section \<open>The data of the radial spline\<close>

text \<open>
  C7. Where the projection gives the coefficients \<open>C\<close> of \<open>K\<close> shells and the radial grid
  has \<open>K\<close> points and \<open>K\<close> weights, \<^verbatim>\<open>spline_with_sph_harms\<close> calls the spline
  constructor with the radial points as abscissae and with data whose entry \<open>(k, m, l)\<close>
  is the coefficient \<open>(k, m, l)\<close> divided by \<open>r_k ^ 2 * w_k\<close>.
\<close>

theorem spline_with_sph_harms_data:
  assumes proj: "project_function_onto_spherical_expansion sph_harm value_arrays weights indices = Inr C"
    and lp: "length (grid_points radial) = length C"
    and lw: "length (grid_weights radial) = length C"
  shows "\<exists>D. spline_with_sph_harms_xy sph_harm value_arrays weights indices radial
           = Inr (grid_points radial, D)
      \<and> spline_with_sph_harms CubicSpline sph_harm value_arrays weights indices radial
           = (case CubicSpline (grid_points radial) D of
                Inl msg \<Rightarrow> Inl (External msg) | Inr spline \<Rightarrow> Inr spline)
      \<and> length D = length C
      \<and> (\<forall>k<length C. length (D ! k) = length (C ! k)
            \<and> (\<forall>m<length (C ! k). length (D ! k ! m) = length (C ! k ! m)
                  \<and> (\<forall>l<length (C ! k ! m).
                        D ! k ! m ! l
                          = C ! k ! m ! l / ((grid_points radial ! k) ^ 2 * grid_weights radial ! k))))"
proof -
  let ?J = "map2 (*) (map (\<lambda>r. r ^ 2) (grid_points radial)) (grid_weights radial)"
  let ?D = "map2 (\<lambda>plane dk. map (map (\<lambda>c. c / dk)) plane) C ?J"
  have jac: "broadcast2 (*) (map (\<lambda>r. r ^ 2) (grid_points radial)) (grid_weights radial) = Inr ?J"
    using lp lw by (simp add: broadcast2_def)
  have dv: "div_first C ?J = Inr ?D"
    using lp lw by (simp add: div_first_def broadcast2_def)
  have xy: "spline_with_sph_harms_xy sph_harm value_arrays weights indices radial
      = Inr (grid_points radial, ?D)"
    by (simp add: spline_with_sph_harms_xy_def proj jac dv bind_err_def)
  have sp: "spline_with_sph_harms CubicSpline sph_harm value_arrays weights indices radial
      = (case CubicSpline (grid_points radial) ?D of
           Inl msg \<Rightarrow> Inl (External msg) | Inr spline \<Rightarrow> Inr spline)"
    by (simp add: spline_with_sph_harms_def xy bind_err_def)
  have len: "length ?D = length C"
    using lp lw by simp
  have ent: "\<forall>k<length C. length (?D ! k) = length (C ! k)
            \<and> (\<forall>m<length (C ! k). length (?D ! k ! m) = length (C ! k ! m)
                  \<and> (\<forall>l<length (C ! k ! m).
                        ?D ! k ! m ! l
                          = C ! k ! m ! l / ((grid_points radial ! k) ^ 2 * grid_weights radial ! k)))"
    using lp lw by simp
  show ?thesis
    using xy sp len ent by (intro exI [of _ ?D] conjI)
qed

theorem spline_with_sph_harms_data_witness:
  "\<exists>D. spline_with_sph_harms_xy [[[Fin 1, Fin 2, NaN]]] [Fin 1, Fin 1, Fin 1]
         [Fin 2, Fin 2, Fin 2] [0, 2, 3] \<lparr> grid_points = [Fin 1, Fin 2], grid_weights = [Fin 3, Fin 1] \<rparr>
       = Inr ([Fin 1, Fin 2], D)
     \<and> D ! 0 ! 0 ! 0 = Fin 2
     \<and> D ! 1 ! 0 ! 0 = Fin 0"
proof -
  have p: "project_function_onto_spherical_expansion [[[Fin 1, Fin 2, NaN]]] [Fin 1, Fin 1, Fin 1]
         [Fin 2, Fin 2, Fin 2] [0, 2, 3] = Inr [[[Fin 6]], [[Fin 0]]]"
    by (simp add: project_function_onto_spherical_expansion_def mul_last_def broadcast2_def
      bind_err_def ew1_def py_slice_def slice_index_def numeral_2_eq_2 zero_float64_def)
  show ?thesis
    using spline_with_sph_harms_data [OF p, of "\<lparr> grid_points = [Fin 1, Fin 2], grid_weights = [Fin 3, Fin 1] \<rparr>"
        "\<lambda>x y. Inr (x, y)"]
    by (auto simp add: numeral_2_eq_2)
qed

section \<open>Negative degrees\<close>

lemma generate_sph_paras_negative: "l_max < 0 \<Longrightarrow> generate_sph_paras l_max = ([], [])"
  by (simp add: generate_sph_paras_def)

text \<open>
  C9, as stated: for a negative \<^verbatim>\<open>l_max\<close> both \<^verbatim>\<open>generate_real_sph_harms\<close> and
  \<^verbatim>\<open>generate_sph_harms\<close> reject the input. \<^verbatim>\<open>generate_sph_harms\<close> does not: for
  \<^verbatim>\<open>l_max = -1\<close> it returns the empty tensor.
\<close>

theorem generate_sph_harms_negative_counterexample:
  "generate_sph_harms (\<lambda>m l t p. CFin 0) (- 1) [Fin 0] [Fin 0] = Inr []"
  by (simp add: generate_sph_harms_def generate_sph_paras_def broadcast2_def bind_err_def)

text \<open>
  C9, amended: for every negative \<^verbatim>\<open>l_max\<close>, \<^verbatim>\<open>generate_real_sph_harms\<close> fails with
  an error instead of returning a tensor; \<^verbatim>\<open>generate_sph_harms\<close> has no check on
  \<^verbatim>\<open>l_max\<close> and, on angle arrays of one length, returns the empty tensor, on which the
  conversion to real harmonics then raises \<^verbatim>\<open>IndexError\<close>.
\<close>

theorem negative_l_max:
  assumes "l_max < 0"
  shows "(\<exists>e. generate_real_sph_harms Y l_max theta phi = Inl e)
    \<and> (length theta = length phi \<longrightarrow>
         generate_sph_harms Y l_max theta phi = Inr []
         \<and> generate_real_sph_harms Y l_max theta phi = Inl IndexError)"
  using assms
  by (auto simp add: generate_real_sph_harms_def generate_sph_harms_def
      generate_sph_paras_negative broadcast2_def bind_err_def convert_ylm_to_zlm_def py_get_def
      split: sum.splits)

theorem negative_l_max_witness:
  "(\<exists>e. generate_real_sph_harms (\<lambda>m l t p. CFin 0) (- 2) [Fin 0, Fin 1] [Fin 0, Fin 1] = Inl e)
   \<and> generate_sph_harms (\<lambda>m l t p. CFin 0) (- 2) [Fin 0, Fin 1] [Fin 0, Fin 1] = Inr []
   \<and> generate_real_sph_harms (\<lambda>m l t p. CFin 0) (- 2) [Fin 0, Fin 1] [Fin 0, Fin 1] = Inl IndexError"
  using negative_l_max [of "- 2" "\<lambda>m l t p. CFin 0" "[Fin 0, Fin 1]" "[Fin 0, Fin 1]"]
  by simp

section \<open>Argument errors of the interpolation\<close>

lemma generate_sph_harms_error:
  "generate_sph_harms Y l_max theta phi = Inl e \<Longrightarrow> e = ValueError_broadcast"
  by (auto simp add: generate_sph_harms_def broadcast2_def bind_err_def
      split: prod.splits if_splits)

lemma convert_ylm_to_zlm_error: "convert_ylm_to_zlm A = Inl e \<Longrightarrow> e = IndexError"
  by (auto simp add: convert_ylm_to_zlm_def py_get_def bind_err_def Let_def split: if_splits)

lemma generate_real_sph_harms_error:
  "generate_real_sph_harms Y l_max theta phi = Inl e \<Longrightarrow> e = ValueError_broadcast \<or> e = IndexError"
  by (auto simp add: generate_real_sph_harms_def bind_err_def
      dest: generate_sph_harms_error convert_ylm_to_zlm_error split: sum.splits)

text \<open>
  C8. \<^verbatim>\<open>interpolate_given_splines\<close> raises the error of mismatched angle arrays
  whenever \<^verbatim>\<open>len(theta)\<close> and \<^verbatim>\<open>len(phi)\<close> differ; for a derivative order outside
  \<open>[0, 3]\<close> it raises an argument error too (that of the angle arrays if they differ
  in length, that of the order otherwise); and for angle arrays of one length and an
  order in \<open>{0, 1, 2, 3}\<close> it raises neither of the two errors.
\<close>

theorem interpolate_given_splines_argument_errors:
  "(length theta \<noteq> length phi \<longrightarrow>
      interpolate_given_splines Y einsum spline r_pts theta phi deriv
        = Inl (ValueError_theta_phi (length theta) (length phi)))
   \<and> (deriv < 0 \<or> 3 < deriv \<longrightarrow>
      interpolate_given_splines Y einsum spline r_pts theta phi deriv
        = (if length theta \<noteq> length phi
           then Inl (ValueError_theta_phi (length theta) (length phi))
           else Inl (ValueError_deriv deriv)))
   \<and> (length theta = length phi \<and> 0 \<le> deriv \<and> deriv \<le> 3 \<longrightarrow>
      (\<forall>a b. interpolate_given_splines Y einsum spline r_pts theta phi deriv
               \<noteq> Inl (ValueError_theta_phi a b))
      \<and> (\<forall>d. interpolate_given_splines Y einsum spline r_pts theta phi deriv
               \<noteq> Inl (ValueError_deriv d)))"
proof (intro conjI impI)
  assume "length theta \<noteq> length phi"
  then show "interpolate_given_splines Y einsum spline r_pts theta phi deriv
        = Inl (ValueError_theta_phi (length theta) (length phi))"
    by (simp add: interpolate_given_splines_def)
next
  assume "deriv < 0 \<or> 3 < deriv"
  then show "interpolate_given_splines Y einsum spline r_pts theta phi deriv
        = (if length theta \<noteq> length phi
           then Inl (ValueError_theta_phi (length theta) (length phi))
           else Inl (ValueError_deriv deriv))"
    by (auto simp add: interpolate_given_splines_def bind_err_def)
next
  assume h: "length theta = length phi \<and> 0 \<le> deriv \<and> deriv \<le> 3"
  show "\<forall>a b. interpolate_given_splines Y einsum spline r_pts theta phi deriv
               \<noteq> Inl (ValueError_theta_phi a b)"
    using h
    by (auto simp add: interpolate_given_splines_def bind_err_def py_get_def Let_def
        dest!: generate_real_sph_harms_error split: sum.splits if_splits)
next
  assume h: "length theta = length phi \<and> 0 \<le> deriv \<and> deriv \<le> 3"
  show "\<forall>d. interpolate_given_splines Y einsum spline r_pts theta phi deriv
               \<noteq> Inl (ValueError_deriv d)"
    using h
    by (auto simp add: interpolate_given_splines_def bind_err_def py_get_def Let_def
        dest!: generate_real_sph_harms_error split: sum.splits if_splits)
qed

lemma generate_real_sph_harms_degree_zero:
  "generate_real_sph_harms (\<lambda>m l t p. CFin 1) 0 [Fin 0] [Fin 0] = Inr [[[Fin 1]]]"
  by (simp add: generate_real_sph_harms_def generate_sph_harms_def generate_sph_paras_def
      broadcast2_def bind_err_def convert_ylm_to_zlm_def py_get_def set_slice_def set_slice_from_def
      py_slice_def py_slice_from_def slice_index_def ew1_def ew2_def np_sqrt2_def np_sqrt2_1j_def
      zero_float64_def)

theorem interpolate_given_splines_argument_errors_witness:
  "interpolate_given_splines (\<lambda>m l t p. CFin 1) (\<lambda>s a b. Inr b) (\<lambda>r d. Inr (NDArray [1, 1] [Fin 1]))
     (Scalar (Fin 1)) [Fin 0] [] 0 = Inl (ValueError_theta_phi 1 0)
   \<and> interpolate_given_splines (\<lambda>m l t p. CFin 1) (\<lambda>s a b. Inr b) (\<lambda>r d. Inr (NDArray [1, 1] [Fin 1]))
     (Scalar (Fin 1)) [Fin 0] [Fin 0] 4 = Inl (ValueError_deriv 4)
   \<and> interpolate_given_splines (\<lambda>m l t p. CFin 1) (\<lambda>s a b. Inr b) (\<lambda>r d. Inr (NDArray [1, 1] [Fin 1]))
     (Scalar (Fin 1)) [Fin 0] [Fin 0] 1 = Inr (NDArray [1, 1] [Fin 1])"
  using interpolate_given_splines_argument_errors [of "[Fin 0]" "[]" "\<lambda>m l t p. CFin 1" "\<lambda>s a b. Inr b"
      "\<lambda>r d. Inr (NDArray [1, 1] [Fin 1])" "Scalar (Fin 1)" 0]
    interpolate_given_splines_argument_errors [of "[Fin 0]" "[Fin 0]" "\<lambda>m l t p. CFin 1" "\<lambda>s a b. Inr b"
      "\<lambda>r d. Inr (NDArray [1, 1] [Fin 1])" "Scalar (Fin 1)" 4]
    interpolate_given_splines_argument_errors [of "[Fin 0]" "[Fin 0]" "\<lambda>m l t p. CFin 1" "\<lambda>s a b. Inr b"
      "\<lambda>r d. Inr (NDArray [1, 1] [Fin 1])" "Scalar (Fin 1)" 1]
  by (simp add: interpolate_given_splines_def bind_err_def py_get_def
      generate_real_sph_harms_degree_zero)

section \<open>The explicit form and its argument\<close>

text \<open>
  C10. No operation should change an array of its caller; in particular
  \<^verbatim>\<open>_rearrange_to_explicit_ode(y, coeff_b, fx)\<close> should leave \<^verbatim>\<open>fx\<close> as it was. It
  does not: with \<open>fx = [10]\<close> at address 0, \<open>y = [[2]]\<close> and \<open>coeff_b = [[3], [2]]\<close>, the
  call returns \<open>[2]\<close> and leaves \<open>[4]\<close> in the caller's \<open>fx\<close>.
\<close>

theorem rearrange_to_explicit_ode_overwrites_fx:
  "rearrange_to_explicit_ode [1] [2, 3] 0
     ((\<lambda>_. [])(0 := [Fin 10], 1 := [Fin 2], 2 := [Fin 3], 3 := [Fin 2]))
   = (Inr [Fin 2], (\<lambda>_. [])(0 := [Fin 4], 1 := [Fin 2], 2 := [Fin 3], 3 := [Fin 2]))"
  by (simp add: rearrange_to_explicit_ode_def py_get_def broadcast2_def inplace2_def fun_eq_iff)

end
